theory Spec2Isabelle
  imports Complex_Main
begin

section \<open>Numbers\<close>

text \<open>
  The scripts compute with IEEE doubles (numpy, pandas). The model idealises a finite
  double as a real number and writes every result that is not a finite number (NaN, or an
  infinity from a division by zero) as \<open>None\<close>: numpy does not raise on \<open>0 / 0\<close>, it
  returns NaN, and NaN then spreads through every later operation. Rounding is not
  modelled. A pandas cell that is missing (None or NaN) is \<open>None\<close> as well.

  Comparisons with NaN are false in Python; the only values the scripts compare are sample
  means and confidence bounds, which are finite or NaN, never infinite.
\<close>

type_synonym fl = "real option"

definition fl_add :: "fl \<Rightarrow> fl \<Rightarrow> fl" where
  "fl_add a b = (case a of None \<Rightarrow> None | Some x \<Rightarrow> (case b of None \<Rightarrow> None | Some y \<Rightarrow> Some (x + y)))"

definition fl_sub :: "fl \<Rightarrow> fl \<Rightarrow> fl" where
  "fl_sub a b = (case a of None \<Rightarrow> None | Some x \<Rightarrow> (case b of None \<Rightarrow> None | Some y \<Rightarrow> Some (x - y)))"

definition fl_mul :: "fl \<Rightarrow> fl \<Rightarrow> fl" where
  "fl_mul a b = (case a of None \<Rightarrow> None | Some x \<Rightarrow> (case b of None \<Rightarrow> None | Some y \<Rightarrow> Some (x * y)))"

definition fl_div :: "fl \<Rightarrow> fl \<Rightarrow> fl" where
  "fl_div a b = (case a of None \<Rightarrow> None | Some x \<Rightarrow>
     (case b of None \<Rightarrow> None | Some y \<Rightarrow> if y = 0 then None else Some (x / y)))"

definition fl_sqrt :: "fl \<Rightarrow> fl" where
  "fl_sqrt a = (case a of None \<Rightarrow> None | Some x \<Rightarrow> if x < 0 then None else Some (sqrt x))"

definition fl_abs :: "fl \<Rightarrow> fl" where
  "fl_abs a = map_option abs a"

definition fl_le :: "fl \<Rightarrow> fl \<Rightarrow> bool" where
  "fl_le a b = (case a of None \<Rightarrow> False | Some x \<Rightarrow> (case b of None \<Rightarrow> False | Some y \<Rightarrow> x \<le> y))"

definition fl_less :: "fl \<Rightarrow> fl \<Rightarrow> bool" where
  "fl_less a b = (case a of None \<Rightarrow> False | Some x \<Rightarrow> (case b of None \<Rightarrow> False | Some y \<Rightarrow> x < y))"

section \<open>The statistics library\<close>

text \<open>
  \<open>analyze_data.py\<close> calls \<open>statsmodels.stats.weightstats\<close>. The attributes of
  \<open>DescrStatsW\<close> and \<open>CompareMeans\<close> it reads are written out below for unit weights
  and \<open>ddof = 0\<close>, the way the script constructs them. A sample is the list of a column's
  cells, so an entry may be NaN. Student's t quantile function (\<open>scipy.stats.t.ppf\<close>) is
  not computed here: every definition takes it as the parameter \<open>tq\<close>, called with the
  probability and the degrees of freedom. The significance level is assumed to lie in
  the open interval from 0 to 1, where the quantile is a finite number.
\<close>

definition nobs :: "fl list \<Rightarrow> real" where
  "nobs arr = real (length arr)"

definition ds_sum :: "fl list \<Rightarrow> fl" where
  "ds_sum arr = map_option sum_list (those arr)"

definition ds_mean :: "fl list \<Rightarrow> fl" where
  "ds_mean arr = fl_div (ds_sum arr) (Some (nobs arr))"

definition sumsquares :: "fl list \<Rightarrow> fl" where
  "sumsquares arr = (case those arr of None \<Rightarrow> None | Some xs \<Rightarrow>
     (case ds_mean arr of None \<Rightarrow> None | Some m \<Rightarrow> Some (\<Sum>x\<leftarrow>xs. (x - m)\<^sup>2)))"

definition ds_var :: "fl list \<Rightarrow> fl" where
  "ds_var arr = fl_div (sumsquares arr) (Some (nobs arr))"

definition ds_std :: "fl list \<Rightarrow> fl" where
  "ds_std arr = fl_sqrt (ds_var arr)"

definition std_mean :: "fl list \<Rightarrow> fl" where
  "std_mean arr = fl_div (ds_std arr) (fl_sqrt (Some (nobs arr - 1)))"

definition tconfint_generic :: "(real \<Rightarrow> real \<Rightarrow> real) \<Rightarrow> fl \<Rightarrow> fl \<Rightarrow> fl \<Rightarrow> real \<Rightarrow> fl \<times> fl" where
  "tconfint_generic tq mean sd dof alpha =
     (let tcrit = map_option (tq (1 - alpha / 2)) dof;
          lower = fl_sub mean (fl_mul tcrit sd);
          upper = fl_add mean (fl_mul tcrit sd)
      in (lower, upper))"

definition tconfint_mean :: "(real \<Rightarrow> real \<Rightarrow> real) \<Rightarrow> fl list \<Rightarrow> real \<Rightarrow> fl \<times> fl" where
  "tconfint_mean tq arr alpha =
     tconfint_generic tq (ds_mean arr) (std_mean arr) (Some (nobs arr - 1)) alpha"

definition sem_sq :: "fl list \<Rightarrow> fl" where
  "sem_sq arr = fl_div (ds_var arr) (Some (nobs arr - 1))"

definition std_meandiff_separatevar :: "fl list \<Rightarrow> fl list \<Rightarrow> fl" where
  "std_meandiff_separatevar d1 d2 = fl_sqrt (fl_add (sem_sq d1) (sem_sq d2))"

definition dof_satt :: "fl list \<Rightarrow> fl list \<Rightarrow> fl" where
  "dof_satt d1 d2 =
     (let sem1 = sem_sq d1;
          sem2 = sem_sq d2;
          semsum = fl_add sem1 sem2;
          r1 = fl_div sem1 semsum;
          r2 = fl_div sem2 semsum;
          z1 = fl_div (fl_mul r1 r1) (Some (nobs d1 - 1));
          z2 = fl_div (fl_mul r2 r2) (Some (nobs d2 - 1))
      in fl_div (Some 1) (fl_add z1 z2))"

definition tconfint_diff :: "(real \<Rightarrow> real \<Rightarrow> real) \<Rightarrow> fl list \<Rightarrow> fl list \<Rightarrow> real \<Rightarrow> fl \<times> fl" where
  "tconfint_diff tq d1 d2 alpha =
     tconfint_generic tq (fl_sub (ds_mean d1) (ds_mean d2))
       (std_meandiff_separatevar d1 d2) (dof_satt d1 d2) alpha"

section \<open>The comparator\<close>

record welch_result =
  x_mean :: fl
  y_mean :: fl
  mean_diff :: fl
  ci_lower :: fl
  ci_upper :: fl
  ci_half_width :: fl
  statistically_significant :: bool
  x_ci :: "fl \<times> fl"
  y_ci :: "fl \<times> fl"

definition welch_t_test_with_confidence_interval ::
    "(real \<Rightarrow> real \<Rightarrow> real) \<Rightarrow> fl list \<Rightarrow> fl list \<Rightarrow> real \<Rightarrow> welch_result" where
  "welch_t_test_with_confidence_interval tq arr_x arr_y alpha =
     (let ci = tconfint_diff tq arr_x arr_y alpha;
          lo = fst ci;
          hi = snd ci;
          xm = ds_mean arr_x;
          ym = ds_mean arr_y
      in \<lparr> x_mean = xm,
           y_mean = ym,
           mean_diff = fl_abs (fl_sub ym xm),
           ci_lower = lo,
           ci_upper = hi,
           ci_half_width = fl_div (fl_sub hi lo) (Some 2),
           statistically_significant = (\<not> (fl_le lo (Some 0) \<and> fl_le (Some 0) hi)),
           x_ci = tconfint_mean tq arr_x alpha,
           y_ci = tconfint_mean tq arr_y alpha \<rparr>)"


section \<open>Tables\<close>

text \<open>
  A measurement table (the data frame read from a results file): every row has its
  deployment mechanism and its numeric cells by column name. \<open>df_columns\<close> lists the
  numeric columns (every column but \<open>deployment-mechanism\<close>).
\<close>

record data_row =
  mechanism :: string
  cells :: "string \<rightharpoonup> real"

record data_frame =
  df_columns :: "string list"
  df_rows :: "data_row list"

text \<open>
  The aggregate table: one row per deployment mechanism, with the model, the input and,
  for every metric, the columns \<open>{metric}-mean\<close>, \<open>{metric}-error-lower\<close> and
  \<open>{metric}-error-upper\<close>.
\<close>

record agg_row =
  agg_model :: string
  agg_input :: string
  agg_mechanism :: string
  agg_cells :: "string \<rightharpoonup> real"

record agg_frame =
  agg_columns :: "string list"
  agg_rows :: "agg_row list"

text \<open>
  A row of a comparison table. The script stores the two confidence intervals and the
  effect size as text with two decimals (\<open>"{lo:,.2f}-{hi:,.2f}"\<close>,
  \<open>"{min:.2f}x-{max:.2f}x"\<close>); the model keeps the numbers that are printed.
\<close>

record comparison_row =
  c_metric :: string
  c_x_value :: "fl \<times> fl"
  c_y_value :: "fl \<times> fl"
  c_significant :: bool
  c_effect_size :: "fl \<times> fl"

record comparison_table =
  header :: "string list"
  body :: "comparison_row list"

text \<open>The lines the analysis prints, each with the data it shows.\<close>

datatype message =
    SignificantDifference string string string
  | NoSignificantDifference string string string
  | MeanDifference fl fl real
  | Average string fl fl fl
  | RatioMessage string fl fl string string
  | EmptyLine

datatype py_error = KeyError | ValueError

section \<open>The pairwise analysis\<close>

primrec unique :: "'a list \<Rightarrow> 'a list" where
  "unique [] = []"
| "unique (x # xs) = x # filter (\<lambda>y. y \<noteq> x) (unique xs)"

primrec combinations2 :: "'a list \<Rightarrow> ('a \<times> 'a) list" where
  "combinations2 [] = []"
| "combinations2 (x # xs) = map (Pair x) xs @ combinations2 xs"

definition get_group :: "data_frame \<Rightarrow> string \<Rightarrow> string \<Rightarrow> fl list" where
  "get_group df m metric = map (\<lambda>r. cells r metric) (filter (\<lambda>r. mechanism r = m) (df_rows df))"

definition metric_columns :: "string \<Rightarrow> string list" where
  "metric_columns metric = [metric @ ''-mean'', metric @ ''-error-lower'', metric @ ''-error-upper'']"

definition add_column :: "string list \<Rightarrow> string \<Rightarrow> string list" where
  "add_column cols c = (if c \<in> set cols then cols else cols @ [c])"

definition initialize_aggregate_df :: "string list \<Rightarrow> string list \<Rightarrow> string \<Rightarrow> string \<Rightarrow> agg_frame" where
  "initialize_aggregate_df metric_cols deployment_mechanisms model inp =
     \<lparr> agg_columns =
         foldl (\<lambda>cols metric. foldl add_column cols (metric_columns metric))
           [''model'', ''input'', ''deployment-mechanism''] metric_cols,
       agg_rows =
         map (\<lambda>m. \<lparr> agg_model = model, agg_input = inp, agg_mechanism = m, agg_cells = Map.empty \<rparr>)
           deployment_mechanisms \<rparr>"

text \<open>\<open>df.loc[df["deployment-mechanism"] == m, cols] = vals\<close>\<close>

definition assign :: "(string \<times> fl) list \<Rightarrow> (string \<rightharpoonup> real) \<Rightarrow> (string \<rightharpoonup> real)" where
  "assign kvs m = fold (\<lambda>kv m'. m'(fst kv := snd kv)) kvs m"

definition loc_set :: "string \<Rightarrow> (string \<times> fl) list \<Rightarrow> agg_row list \<Rightarrow> agg_row list" where
  "loc_set m kvs rs =
     map (\<lambda>r. if agg_mechanism r = m then r\<lparr>agg_cells := assign kvs (agg_cells r)\<rparr> else r) rs"

definition effect_size_ratio :: "fl \<Rightarrow> fl \<Rightarrow> fl \<Rightarrow> fl \<times> fl" where
  "effect_size_ratio xm ym hw =
     (if fl_less xm ym then
        (let ratio = fl_div ym xm;
             ratio_ci = fl_div hw xm
         in (fl_sub ratio ratio_ci, fl_add ratio ratio_ci))
      else
        (let ratio = fl_div xm ym;
             ratio_ci = fl_div hw ym
         in (fl_sub ratio ratio_ci, fl_add ratio ratio_ci)))"

definition ratio_message :: "string \<Rightarrow> string \<Rightarrow> string \<Rightarrow> welch_result \<Rightarrow> message" where
  "ratio_message dx dy metric w =
     (let r = effect_size_ratio (x_mean w) (y_mean w) (ci_half_width w)
      in if fl_less (x_mean w) (y_mean w) then RatioMessage dx (fst r) (snd r) dy metric
         else RatioMessage dy (fst r) (snd r) dx metric)"

definition print_if_true :: "message \<Rightarrow> bool \<Rightarrow> message list" where
  "print_if_true msg condition = (if condition then [msg] else [])"

definition aggregate_values :: "string \<Rightarrow> fl \<Rightarrow> fl \<times> fl \<Rightarrow> (string \<times> fl) list" where
  "aggregate_values metric m ci =
     zip (metric_columns metric) [m, fl_sub m (fst ci), fl_sub (snd ci) m]"

definition comparison_entry :: "string \<Rightarrow> welch_result \<Rightarrow> comparison_row" where
  "comparison_entry metric w =
     \<lparr> c_metric = metric,
       c_x_value = x_ci w,
       c_y_value = y_ci w,
       c_significant = statistically_significant w,
       c_effect_size = effect_size_ratio (x_mean w) (y_mean w) (ci_half_width w) \<rparr>"

definition report_lines :: "real \<Rightarrow> bool \<Rightarrow> bool \<Rightarrow> string \<Rightarrow> string \<Rightarrow> string \<Rightarrow> welch_result \<Rightarrow> message list" where
  "report_lines significance_level include_insignificant_output view_output dx dy metric w =
     (if statistically_significant w
      then print_if_true (SignificantDifference dx dy metric) view_output
      else print_if_true (NoSignificantDifference dx dy metric) view_output)
     @ (if statistically_significant w \<or> include_insignificant_output then
          print_if_true (MeanDifference (mean_diff w) (ci_half_width w)
                           ((1 - significance_level) * 100)) view_output
          @ print_if_true (Average dx (x_mean w) (fst (x_ci w)) (snd (x_ci w))) view_output
          @ print_if_true (Average dy (y_mean w) (fst (y_ci w)) (snd (y_ci w))) view_output
          @ print_if_true (ratio_message dx dy metric w) view_output
          @ print_if_true EmptyLine view_output
        else [])"

text \<open>
  The state of the loop over the metrics of one pair: the aggregate rows, the comparison
  table of the pair and what has been printed.
\<close>

record pair_state =
  ps_aggregate :: "agg_row list"
  ps_comparison :: "comparison_row list"
  ps_console :: "message list"

definition analyze_metric ::
    "(real \<Rightarrow> real \<Rightarrow> real) \<Rightarrow> data_frame \<Rightarrow> real \<Rightarrow> bool \<Rightarrow> bool \<Rightarrow> string \<Rightarrow> string
      \<Rightarrow> pair_state \<Rightarrow> string \<Rightarrow> pair_state" where
  "analyze_metric tq df significance_level include_insignificant_output view_output dx dy st metric =
     (let arr_x = get_group df dx metric;
          arr_y = get_group df dy metric;
          w = welch_t_test_with_confidence_interval tq arr_x arr_y significance_level
      in \<lparr> ps_aggregate =
             loc_set dy (aggregate_values metric (y_mean w) (y_ci w))
               (loc_set dx (aggregate_values metric (x_mean w) (x_ci w)) (ps_aggregate st)),
           ps_comparison = ps_comparison st @ [comparison_entry metric w],
           ps_console = ps_console st
             @ report_lines significance_level include_insignificant_output view_output dx dy metric w \<rparr>)"

text \<open>POSIX \<open>os.path.join\<close> of two components.\<close>

definition path_join :: "string \<Rightarrow> string \<Rightarrow> string" where
  "path_join a b =
     (if b \<noteq> [] \<and> hd b = CHR ''/'' then b
      else if a = [] \<or> last a = CHR ''/'' then a @ b
      else a @ ''/'' @ b)"

definition comparison_csv_filename :: "string \<Rightarrow> string \<Rightarrow> string \<Rightarrow> string \<Rightarrow> string" where
  "comparison_csv_filename model inp dx dy =
     model @ ''-'' @ inp @ ''-'' @ dx @ ''-'' @ dy @ ''-comparison.csv''"

definition comparison_header :: "string \<Rightarrow> string \<Rightarrow> string list" where
  "comparison_header dx dy =
     [''metric'', dx @ ''-value'', dy @ ''-value'', ''statistically-significant'', ''effect-size'']"

text \<open>
  The state of the whole run: the aggregate rows, what has been printed and the
  comparison files written so far, each with its path.
\<close>

record run_state =
  aggregate :: "agg_row list"
  console :: "message list"
  saved :: "(string \<times> comparison_table) list"

definition analyze_pair ::
    "(real \<Rightarrow> real \<Rightarrow> real) \<Rightarrow> data_frame \<Rightarrow> real \<Rightarrow> string list \<Rightarrow> string \<Rightarrow> string \<Rightarrow> string
      \<Rightarrow> bool \<Rightarrow> bool \<Rightarrow> bool \<Rightarrow> run_state \<Rightarrow> string \<times> string \<Rightarrow> run_state" where
  "analyze_pair tq df significance_level metrics model inp analyzed_results_path
       include_insignificant_output view_output save_output st pair =
     (let dx = fst pair;
          dy = snd pair;
          ps = foldl (analyze_metric tq df significance_level include_insignificant_output
                        view_output dx dy)
                 \<lparr> ps_aggregate = aggregate st, ps_comparison = [], ps_console = console st \<rparr>
                 metrics
      in \<lparr> aggregate = ps_aggregate ps,
           console = ps_console ps,
           saved =
             (if save_output then
                saved st @ [(path_join analyzed_results_path (comparison_csv_filename model inp dx dy),
                             \<lparr> header = comparison_header dx dy, body = ps_comparison ps \<rparr>)]
              else saved st) \<rparr>)"

definition analyze_pairs ::
    "(real \<Rightarrow> real \<Rightarrow> real) \<Rightarrow> data_frame \<Rightarrow> real \<Rightarrow> string list \<Rightarrow> string \<Rightarrow> string \<Rightarrow> string
      \<Rightarrow> bool \<Rightarrow> bool \<Rightarrow> bool \<Rightarrow> (string \<times> string) list \<Rightarrow> run_state \<Rightarrow> run_state" where
  "analyze_pairs tq df significance_level metrics model inp analyzed_results_path
       include_insignificant_output view_output save_output pairs st =
     foldl (analyze_pair tq df significance_level metrics model inp analyzed_results_path
              include_insignificant_output view_output save_output) st pairs"

text \<open>
  What the function returns and what it does: the aggregate table it returns, the lines
  it printed and the files it wrote. \<open>df.groupby("deployment-mechanism")[metrics]\<close>
  raises KeyError when a metric is not a column of the table.
\<close>

record analysis =
  returned_df :: agg_frame
  printed :: "message list"
  written :: "(string \<times> comparison_table) list"

definition analyze_data_significant_difference ::
    "(real \<Rightarrow> real \<Rightarrow> real) \<Rightarrow> data_frame \<Rightarrow> real \<Rightarrow> string list \<Rightarrow> string \<Rightarrow> string \<Rightarrow> string
      \<Rightarrow> bool \<Rightarrow> bool \<Rightarrow> bool \<Rightarrow> py_error + analysis" where
  "analyze_data_significant_difference tq df significance_level metrics model inp
       analyzed_results_path include_insignificant_output view_output save_output =
     (if \<not> set metrics \<subseteq> set (df_columns df) then Inl KeyError
      else
        let deployment_mechanisms = unique (map mechanism (df_rows df));
            agg0 = initialize_aggregate_df metrics deployment_mechanisms model inp;
            st = analyze_pairs tq df significance_level metrics model inp analyzed_results_path
                   include_insignificant_output view_output save_output
                   (combinations2 deployment_mechanisms)
                   \<lparr> aggregate = agg_rows agg0, console = [], saved = [] \<rparr>
        in Inr \<lparr> returned_df = agg0\<lparr>agg_rows := aggregate st\<rparr>,
                 printed = console st,
                 written = saved st \<rparr>)"

section \<open>Welch's interval, as the specification words it\<close>

text \<open>
  The two-sided confidence interval for \<open>mean Y - mean X\<close> by Welch's test: the
  unbiased sample variances, no pooling, and the degrees of freedom of the
  Welch-Satterthwaite approximation. It is undefined for a sample of fewer than two
  observations and when both variances vanish.
\<close>

definition sample_mean :: "real list \<Rightarrow> real" where
  "sample_mean xs = sum_list xs / real (length xs)"

definition sum_sq_dev :: "real list \<Rightarrow> real" where
  "sum_sq_dev xs = (\<Sum>x\<leftarrow>xs. (x - sample_mean xs)\<^sup>2)"

definition sample_variance :: "real list \<Rightarrow> real" where
  "sample_variance xs = sum_sq_dev xs / (real (length xs) - 1)"

definition welch_satterthwaite_dof :: "real list \<Rightarrow> real list \<Rightarrow> real" where
  "welch_satterthwaite_dof X Y =
     (let a = sample_variance X / real (length X);
          b = sample_variance Y / real (length Y)
      in (a + b)\<^sup>2 / (a\<^sup>2 / (real (length X) - 1) + b\<^sup>2 / (real (length Y) - 1)))"

definition welch_interval :: "(real \<Rightarrow> real \<Rightarrow> real) \<Rightarrow> real list \<Rightarrow> real list \<Rightarrow> real \<Rightarrow> (real \<times> real) option" where
  "welch_interval tq X Y alpha =
     (let a = sample_variance X / real (length X);
          b = sample_variance Y / real (length Y)
      in if length X < 2 \<or> length Y < 2 \<or> a + b = 0 then None
         else let d = sample_mean Y - sample_mean X;
                  t = tq (1 - alpha / 2) (welch_satterthwaite_dof X Y)
              in Some (d - t * sqrt (a + b), d + t * sqrt (a + b)))"

definition straddles_zero :: "(real \<times> real) option \<Rightarrow> bool" where
  "straddles_zero ci = (case ci of None \<Rightarrow> False | Some (lo, hi) \<Rightarrow> lo \<le> 0 \<and> 0 \<le> hi)"

text \<open>The half-width of an interval; undefined with it.\<close>

definition half_width :: "(real \<times> real) option \<Rightarrow> fl" where
  "half_width ci = map_option (\<lambda>b. (snd b - fst b) / 2) ci"

section \<open>The aggregate store\<close>

text \<open>
  \<open>pd.concat([a, b], ignore_index=True)\<close>: the rows of \<open>a\<close>, then the rows of
  \<open>b\<close>; the columns of \<open>a\<close>, then the columns only \<open>b\<close> has.
\<close>

definition concat_frames :: "agg_frame \<Rightarrow> agg_frame \<Rightarrow> agg_frame" where
  "concat_frames a b =
     \<lparr> agg_columns = foldl add_column (agg_columns a) (agg_columns b),
       agg_rows = agg_rows a @ agg_rows b \<rparr>"

text \<open>
  The store is the aggregate file, modelled by the table it holds: \<open>None\<close> when the file
  does not exist. The function returns the table the file holds afterwards.
\<close>

definition create_or_update_aggregate_csv :: "agg_frame \<Rightarrow> agg_frame option \<Rightarrow> agg_frame" where
  "create_or_update_aggregate_csv aggregate_df store =
     (case store of
        None \<Rightarrow> aggregate_df
      | Some existing_aggregate_df \<Rightarrow> concat_frames existing_aggregate_df aggregate_df)"

section \<open>The loader\<close>

definition NON_METRIC_COLUMNS :: "string list" where
  "NON_METRIC_COLUMNS = [''index'', ''deployment-mechanism'', ''trial-number'']"

definition startswith :: "string \<Rightarrow> string \<Rightarrow> bool" where
  "startswith s p = (take (length p) s = p)"

definition keep_columns :: "string list \<Rightarrow> data_frame \<Rightarrow> data_frame" where
  "keep_columns keep df =
     \<lparr> df_columns = filter (\<lambda>c. c \<in> set keep) (df_columns df),
       df_rows = map (\<lambda>r. r\<lparr>cells := cells r |` set keep\<rparr>) (df_rows df) \<rparr>"

definition rename_mechanisms :: "(string \<Rightarrow> string) \<Rightarrow> data_frame \<Rightarrow> data_frame" where
  "rename_mechanisms f df = df\<lparr>df_rows := map (\<lambda>r. r\<lparr>mechanism := f (mechanism r)\<rparr>) (df_rows df)\<rparr>"

definition drop_rows_starting_with :: "string \<Rightarrow> data_frame \<Rightarrow> data_frame" where
  "drop_rows_starting_with p df =
     df\<lparr>df_rows := filter (\<lambda>r. \<not> startswith (mechanism r) p) (df_rows df)\<rparr>"

definition set_column :: "string \<Rightarrow> (data_row \<Rightarrow> fl) \<Rightarrow> data_frame \<Rightarrow> data_frame" where
  "set_column name f df =
     \<lparr> df_columns = add_column (df_columns df) name,
       df_rows = map (\<lambda>r. r\<lparr>cells := (cells r)(name := f r)\<rparr>) (df_rows df) \<rparr>"

definition docker_overhead_rows :: "int \<Rightarrow> data_frame \<Rightarrow> data_frame" where
  "docker_overhead_rows docker_overhead_view df =
     (if docker_overhead_view = 0 then
        drop_rows_starting_with ''docker_container_and_daemon''
          (rename_mechanisms (\<lambda>m. if m = ''docker_container'' then ''docker'' else m) df)
      else if docker_overhead_view = 1 then
        drop_rows_starting_with ''docker_container_and_daemon_extra_overhead''
          (drop_rows_starting_with ''docker_container''
            (rename_mechanisms
               (\<lambda>m. if startswith m ''docker_container_and_daemon'' then ''docker'' else m) df))
      else if docker_overhead_view = 2 then
        drop_rows_starting_with ''docker_container_and_daemon''
          (drop_rows_starting_with ''docker_container''
            (rename_mechanisms
               (\<lambda>m. if startswith m ''docker_container_and_daemon_extra_overhead'' then ''docker''
                    else m) df))
      else df)"

definition computed_columns :: "bool \<Rightarrow> data_frame \<Rightarrow> data_frame" where
  "computed_columns is_perf_file df =
     (if is_perf_file \<and> ''cpu-cycles'' \<in> set (df_columns df) \<and> ''instructions'' \<in> set (df_columns df)
      then
        set_column ''cycles-per-instruction''
          (\<lambda>r. fl_div (cells r ''cpu-cycles'') (cells r ''instructions''))
          (set_column ''instructions-per-cycle''
            (\<lambda>r. fl_div (cells r ''instructions'') (cells r ''cpu-cycles'')) df)
      else df)"

text \<open>
  \<open>parse_csv_rows\<close>, from the table \<open>pd.read_csv\<close> returns on. The last step drops the
  rows whose mechanism was not asked for.
\<close>

definition parse_csv_rows :: "data_frame \<Rightarrow> string list \<Rightarrow> string list \<Rightarrow> int \<Rightarrow> bool \<Rightarrow> data_frame" where
  "parse_csv_rows csv deployment_mechanisms metrics docker_overhead_view is_perf_file =
     (let df = computed_columns is_perf_file
                 (docker_overhead_rows docker_overhead_view
                    (keep_columns (NON_METRIC_COLUMNS @ metrics) csv))
      in df\<lparr>df_rows := filter (\<lambda>r. mechanism r \<in> set deployment_mechanisms) (df_rows df)\<rparr>)"

section \<open>The comparison across experiments\<close>

definition DEPLOYMENT_MECHANISM_TO_COLOR :: "string \<rightharpoonup> string" where
  "DEPLOYMENT_MECHANISM_TO_COLOR =
     map_of [(''wasm_aot'', ''tab:red''), (''wasm_interpreted'', ''tab:blue''),
             (''docker'', ''tab:green''), (''native'', ''tab:orange'')]"

definition DEPLOYMENT_MECHANISM_TO_LINESTYLE :: "string \<rightharpoonup> string" where
  "DEPLOYMENT_MECHANISM_TO_LINESTYLE =
     map_of [(''wasm_aot'', ''-''), (''wasm_interpreted'', ''--''),
             (''docker'', ''-.''), (''native'', '':'')]"

fun join :: "string \<Rightarrow> string list \<Rightarrow> string" where
  "join sep [] = []"
| "join sep [x] = x"
| "join sep (x # y # zs) = x @ sep @ join sep (y # zs)"

definition replace_char :: "char \<Rightarrow> char \<Rightarrow> string \<Rightarrow> string" where
  "replace_char a b s = map (\<lambda>c. if c = a then b else c) s"

text \<open>
  The lines of one figure, one per deployment mechanism. Reading a missing error column or
  a mechanism without a colour raises KeyError; \<open>plt.errorbar\<close> raises ValueError when
  the mechanism does not have one row per value on the x axis.
\<close>

fun plot_lines :: "agg_frame \<Rightarrow> string \<Rightarrow> string list \<Rightarrow> string list \<Rightarrow> py_error option" where
  "plot_lines df metric variable_values [] = None"
| "plot_lines df metric variable_values (m # ms) =
     (if metric @ ''-error-lower'' \<in> set (agg_columns df)
         \<and> metric @ ''-error-upper'' \<in> set (agg_columns df)
      then
        (if m \<in> dom DEPLOYMENT_MECHANISM_TO_COLOR \<and> m \<in> dom DEPLOYMENT_MECHANISM_TO_LINESTYLE
         then
           (if length (filter (\<lambda>r. agg_mechanism r = m) (agg_rows df)) = length variable_values
            then plot_lines df metric variable_values ms
            else Some ValueError)
         else Some KeyError)
      else Some KeyError)"

text \<open>What charting did: the image files written, the figures shown, and the exception
  that ended it, if one did.\<close>

record chart_state =
  plots_saved :: "string list"
  figures_shown :: "string list"
  raised :: "py_error option"

fun chart_metrics ::
    "agg_frame \<Rightarrow> string list \<Rightarrow> string list \<Rightarrow> string \<Rightarrow> bool \<Rightarrow> bool \<Rightarrow> string
      \<Rightarrow> string list \<Rightarrow> chart_state \<Rightarrow> chart_state" where
  "chart_metrics df mechs variable_values plot_filename_prefix view_output save_output plots_path [] st = st"
| "chart_metrics df mechs variable_values plot_filename_prefix view_output save_output plots_path
       (metric # metrics) st =
     (if metric @ ''-mean'' \<in> set (agg_columns df) then
        (case plot_lines df metric variable_values mechs of
           Some e \<Rightarrow> st\<lparr>raised := Some e\<rparr>
         | None \<Rightarrow>
             chart_metrics df mechs variable_values plot_filename_prefix view_output save_output
               plots_path metrics
               (st\<lparr> plots_saved :=
                       (if save_output then
                          plots_saved st
                            @ [path_join plots_path
                                 (plot_filename_prefix @ ''-''
                                    @ replace_char CHR ''-'' CHR ''_'' metric @ ''-lineplot.png'')]
                        else plots_saved st),
                    figures_shown :=
                       (if view_output then figures_shown st @ [metric] else figures_shown st) \<rparr>))
      else
        chart_metrics df mechs variable_values plot_filename_prefix view_output save_output
          plots_path metrics st)"

definition chart_compare_across_models_or_inputs ::
    "agg_frame \<Rightarrow> string list \<Rightarrow> bool \<Rightarrow> string list \<Rightarrow> string \<Rightarrow> bool \<Rightarrow> bool \<Rightarrow> string
      \<Rightarrow> chart_state" where
  "chart_compare_across_models_or_inputs df metrics across_models variable_values constant_value
       view_output save_output plots_path =
     (let deployment_mechanisms = unique (map agg_mechanism (agg_rows df));
          variable_values_str = join ''_'' variable_values;
          plot_filename_prefix =
            (if across_models then
               ''aggregate_models_'' @ variable_values_str @ ''_for_input_'' @ constant_value
             else
               ''aggregate_models_'' @ variable_values_str @ ''_for_model_'' @ constant_value)
      in chart_metrics df deployment_mechanisms variable_values plot_filename_prefix view_output
           save_output plots_path metrics
           \<lparr> plots_saved = [], figures_shown = [], raised = None \<rparr>)"

definition compare_across_models_or_inputs ::
    "agg_frame \<Rightarrow> bool \<Rightarrow> string list \<Rightarrow> string \<Rightarrow> string list \<Rightarrow> bool \<Rightarrow> bool \<Rightarrow> string
      \<Rightarrow> chart_state" where
  "compare_across_models_or_inputs df across_models variable_values constant_value metrics
       view_output save_output plots_path =
     (let variable = (if across_models then agg_model else agg_input);
          constant = (if across_models then agg_input else agg_model);
          df1 = df\<lparr>agg_rows := filter (\<lambda>r. variable r \<in> set variable_values) (agg_rows df)\<rparr>;
          df2 = df1\<lparr>agg_rows := filter (\<lambda>r. constant r = constant_value) (agg_rows df1)\<rparr>
      in chart_compare_across_models_or_inputs df2 metrics across_models variable_values
           constant_value view_output save_output plots_path)"

definition compare_across_models ::
    "agg_frame \<Rightarrow> string list \<Rightarrow> string \<Rightarrow> string list \<Rightarrow> bool \<Rightarrow> bool \<Rightarrow> string \<Rightarrow> chart_state" where
  "compare_across_models df models_to_compare inp metrics view_output save_output plots_path =
     compare_across_models_or_inputs df True models_to_compare inp metrics view_output
       save_output plots_path"

definition compare_across_inputs ::
    "agg_frame \<Rightarrow> string list \<Rightarrow> string \<Rightarrow> string list \<Rightarrow> bool \<Rightarrow> bool \<Rightarrow> string \<Rightarrow> chart_state" where
  "compare_across_inputs df inputs_to_compare model metrics view_output save_output plots_path =
     compare_across_models_or_inputs df False inputs_to_compare model metrics view_output
       save_output plots_path"

section \<open>The analysis in closed form\<close>

text \<open>
  What the loops of the analysis add up to. The comparator's result for a pair of
  mechanisms and a metric; the comparison table and the printed lines of a pair; and the
  aggregate cells of a mechanism, computed from the mechanism's own sample alone: its
  mean and its own confidence interval.
\<close>

definition pair_welch :: "(real \<Rightarrow> real \<Rightarrow> real) \<Rightarrow> data_frame \<Rightarrow> real \<Rightarrow> string \<Rightarrow> string \<Rightarrow> string \<Rightarrow> welch_result" where
  "pair_welch tq df alpha dx dy metric =
     welch_t_test_with_confidence_interval tq (get_group df dx metric) (get_group df dy metric) alpha"

definition pair_table :: "(real \<Rightarrow> real \<Rightarrow> real) \<Rightarrow> data_frame \<Rightarrow> real \<Rightarrow> string list \<Rightarrow> string \<Rightarrow> string \<Rightarrow> comparison_table" where
  "pair_table tq df alpha metrics dx dy =
     \<lparr> header = comparison_header dx dy,
       body = map (\<lambda>metric. comparison_entry metric (pair_welch tq df alpha dx dy metric)) metrics \<rparr>"

definition pair_report :: "(real \<Rightarrow> real \<Rightarrow> real) \<Rightarrow> data_frame \<Rightarrow> real \<Rightarrow> bool \<Rightarrow> bool \<Rightarrow> string list \<Rightarrow> string \<Rightarrow> string \<Rightarrow> message list" where
  "pair_report tq df alpha include_insignificant_output view_output metrics dx dy =
     concat (map (\<lambda>metric. report_lines alpha include_insignificant_output view_output dx dy metric
                               (pair_welch tq df alpha dx dy metric)) metrics)"

definition own_values :: "(real \<Rightarrow> real \<Rightarrow> real) \<Rightarrow> data_frame \<Rightarrow> real \<Rightarrow> string \<Rightarrow> string \<Rightarrow> (string \<times> fl) list" where
  "own_values tq df alpha m metric =
     aggregate_values metric (ds_mean (get_group df m metric))
       (tconfint_mean tq (get_group df m metric) alpha)"

definition own_assignments :: "(real \<Rightarrow> real \<Rightarrow> real) \<Rightarrow> data_frame \<Rightarrow> real \<Rightarrow> string list \<Rightarrow> string \<Rightarrow> (string \<times> fl) list" where
  "own_assignments tq df alpha metrics m = concat (map (own_values tq df alpha m) metrics)"

definition own_row :: "(real \<Rightarrow> real \<Rightarrow> real) \<Rightarrow> data_frame \<Rightarrow> real \<Rightarrow> string list \<Rightarrow> agg_row \<Rightarrow> agg_row" where
  "own_row tq df alpha metrics r =
     r\<lparr>agg_cells := assign (own_assignments tq df alpha metrics (agg_mechanism r)) (agg_cells r)\<rparr>"

definition overwritten :: "(real \<Rightarrow> real \<Rightarrow> real) \<Rightarrow> data_frame \<Rightarrow> real \<Rightarrow> string list \<Rightarrow> string set \<Rightarrow> agg_row \<Rightarrow> agg_row" where
  "overwritten tq df alpha metrics S r =
     (if agg_mechanism r \<in> S then own_row tq df alpha metrics r else r)"

definition mechanisms_in :: "(string \<times> string) list \<Rightarrow> string set" where
  "mechanisms_in pairs = fst ` set pairs \<union> snd ` set pairs"

text \<open>The standard error of the mean of a sample, from its unbiased variance.\<close>

definition standard_error :: "real list \<Rightarrow> real" where
  "standard_error xs = sqrt (sum_sq_dev xs / real (length xs)) / sqrt (real (length xs) - 1)"

section \<open>Example data\<close>

text \<open>
  Two-sided 95 percent critical values of Student's t distribution to three decimals, as
  tables print them; the examples below run the analysis with them.
\<close>

definition t_table :: "real \<Rightarrow> real \<Rightarrow> real" where
  "t_table p d =
     (if d \<le> 1 then 12.706 else if d \<le> 2 then 4.303 else if d \<le> 3 then 3.182
      else if d \<le> 4 then 2.776 else if d \<le> 5 then 2.571 else if d \<le> 10 then 2.228
      else 1.96)"

definition example_csv :: data_frame where
  "example_csv =
     \<lparr> df_columns = [''trial-number'', ''cpu-cycles''],
       df_rows =
         [\<lparr> mechanism = ''docker_container'', cells = [''trial-number'' \<mapsto> 1, ''cpu-cycles'' \<mapsto> 100] \<rparr>,
          \<lparr> mechanism = ''docker_container_and_daemon'', cells = [''trial-number'' \<mapsto> 1, ''cpu-cycles'' \<mapsto> 120] \<rparr>,
          \<lparr> mechanism = ''docker_container_and_daemon_extra_overhead'',
            cells = [''trial-number'' \<mapsto> 1, ''cpu-cycles'' \<mapsto> 20] \<rparr>,
          \<lparr> mechanism = ''native'', cells = [''trial-number'' \<mapsto> 1, ''cpu-cycles'' \<mapsto> 90] \<rparr>] \<rparr>"

definition example_store :: agg_frame where
  "example_store =
     \<lparr> agg_columns = [''model'', ''input'', ''deployment-mechanism'',
                      ''latency-mean'', ''latency-error-lower'', ''latency-error-upper''],
       agg_rows =
         [\<lparr> agg_model = ''m1'', agg_input = ''a'', agg_mechanism = ''docker'',
            agg_cells = [''latency-mean'' \<mapsto> 2, ''latency-error-lower'' \<mapsto> 1, ''latency-error-upper'' \<mapsto> 1] \<rparr>,
          \<lparr> agg_model = ''m1'', agg_input = ''b'', agg_mechanism = ''docker'',
            agg_cells = [''latency-mean'' \<mapsto> 3, ''latency-error-lower'' \<mapsto> 1, ''latency-error-upper'' \<mapsto> 1] \<rparr>] \<rparr>"

definition example_trials :: data_frame where
  "example_trials =
     \<lparr> df_columns = [''trial-number'', ''latency''],
       df_rows =
         [\<lparr> mechanism = ''native'', cells = [''trial-number'' \<mapsto> 1, ''latency'' \<mapsto> 0] \<rparr>,
          \<lparr> mechanism = ''docker'', cells = [''trial-number'' \<mapsto> 1, ''latency'' \<mapsto> 6] \<rparr>,
          \<lparr> mechanism = ''native'', cells = [''trial-number'' \<mapsto> 2, ''latency'' \<mapsto> 6] \<rparr>,
          \<lparr> mechanism = ''docker'', cells = [''trial-number'' \<mapsto> 2, ''latency'' \<mapsto> 14] \<rparr>] \<rparr>"

definition example_analysis :: "py_error + analysis" where
  "example_analysis =
     analyze_data_significant_difference t_table example_trials (1 / 20) [''latency''] ''m1'' ''a''
       ''cmp'' False True True"

section \<open>Facts about the numbers and the library\<close>

lemma those_map_Some [simp]: "those (map Some xs) = Some xs"
  by (induction xs) auto

lemma ds_mean_finite: "ds_mean (map Some xs) = (if xs = [] then None else Some (sample_mean xs))"
  by (simp add: ds_mean_def ds_sum_def nobs_def fl_div_def sample_mean_def)

lemma sumsquares_finite: "sumsquares (map Some xs) = (if xs = [] then None else Some (sum_sq_dev xs))"
  by (simp add: sumsquares_def ds_mean_finite sum_sq_dev_def)

lemma ds_var_finite: "ds_var (map Some xs) = (if xs = [] then None else Some (sum_sq_dev xs / real (length xs)))"
  by (simp add: ds_var_def sumsquares_finite fl_div_def nobs_def)

lemma sem_sq_finite:
  "sem_sq (map Some xs) = (if length xs < 2 then None else Some (sample_variance xs / real (length xs)))"
proof (cases "length xs < 2")
  case True
  then have "xs = [] \<or> length xs = 1" by (cases xs) auto
  then show ?thesis using True
    by (auto simp: sem_sq_def ds_var_finite fl_div_def nobs_def)
next
  case False
  then have "xs \<noteq> []" "real (length xs) - 1 \<noteq> 0" by auto
  then show ?thesis using False
    by (simp add: sem_sq_def ds_var_finite fl_div_def nobs_def sample_variance_def field_simps)
qed

lemma sum_sq_dev_nonneg: "0 \<le> sum_sq_dev xs"
  unfolding sum_sq_dev_def by (rule sum_list_nonneg) auto

lemma sem_nonneg: "2 \<le> length xs \<Longrightarrow> 0 \<le> sample_variance xs / real (length xs)"
  by (simp add: sample_variance_def sum_sq_dev_nonneg)

lemma fl_add_simps [simp]:
  "fl_add (Some x) (Some y) = Some (x + y)" "fl_add None b = None" "fl_add a None = None"
  by (simp_all add: fl_add_def split: option.splits)

lemma fl_sub_simps [simp]:
  "fl_sub (Some x) (Some y) = Some (x - y)" "fl_sub None b = None" "fl_sub a None = None"
  by (simp_all add: fl_sub_def split: option.splits)

lemma fl_mul_simps [simp]:
  "fl_mul (Some x) (Some y) = Some (x * y)" "fl_mul None b = None" "fl_mul a None = None"
  by (simp_all add: fl_mul_def split: option.splits)

lemma fl_div_simps [simp]:
  "fl_div (Some x) (Some y) = (if y = 0 then None else Some (x / y))"
  "fl_div None b = None" "fl_div a None = None"
  by (simp_all add: fl_div_def split: option.splits)

lemma fl_sqrt_simps [simp]:
  "fl_sqrt (Some x) = (if x < 0 then None else Some (sqrt x))" "fl_sqrt None = None"
  by (simp_all add: fl_sqrt_def)

lemma fl_le_simps [simp]:
  "fl_le (Some x) (Some y) = (x \<le> y)" "fl_le None b = False" "fl_le a None = False"
  by (simp_all add: fl_le_def split: option.splits)

lemma fl_less_simps [simp]:
  "fl_less (Some x) (Some y) = (x < y)" "fl_less None b = False" "fl_less a None = False"
  by (simp_all add: fl_less_def split: option.splits)

lemma std_meandiff_finite:
  "std_meandiff_separatevar (map Some X) (map Some Y) =
     (if length X < 2 \<or> length Y < 2 then None
      else Some (sqrt (sample_variance X / real (length X) + sample_variance Y / real (length Y))))"
proof (cases "length X < 2 \<or> length Y < 2")
  case True
  then show ?thesis by (auto simp: std_meandiff_separatevar_def sem_sq_finite)
next
  case False
  then have "0 \<le> sample_variance X / real (length X)" "0 \<le> sample_variance Y / real (length Y)"
    by (simp_all add: sem_nonneg)
  then have "\<not> sample_variance X / real (length X) + sample_variance Y / real (length Y) < 0"
    by linarith
  then show ?thesis using False by (simp add: std_meandiff_separatevar_def sem_sq_finite)
qed

lemma satt_algebra:
  fixes a b p q s :: real
  assumes "s \<noteq> 0" "p \<noteq> 0" "q \<noteq> 0"
  shows "(a / s) * (a / s) / p + (b / s) * (b / s) / q = (a\<^sup>2 / p + b\<^sup>2 / q) / s\<^sup>2"
  using assms by (simp add: power2_eq_square field_simps)

lemma satt_nonzero:
  fixes a b p q :: real
  assumes "a + b \<noteq> 0" "0 < p" "0 < q"
  shows "a\<^sup>2 / p + b\<^sup>2 / q \<noteq> 0"
proof
  assume h: "a\<^sup>2 / p + b\<^sup>2 / q = 0"
  have "0 \<le> a\<^sup>2 / p" "0 \<le> b\<^sup>2 / q" using assms by simp_all
  with h have "a\<^sup>2 / p = 0" "b\<^sup>2 / q = 0" by linarith+
  with assms have "a = 0" "b = 0" by simp_all
  with assms show False by simp
qed

lemma dof_core:
  fixes a b p q :: real
  assumes ab: "a + b \<noteq> 0" and p: "0 < p" and q: "0 < q"
  shows "fl_div (Some 1)
           (fl_add (fl_div (fl_mul (fl_div (Some a) (Some (a + b))) (fl_div (Some a) (Some (a + b)))) (Some p))
                   (fl_div (fl_mul (fl_div (Some b) (Some (a + b))) (fl_div (Some b) (Some (a + b)))) (Some q)))
         = Some ((a + b)\<^sup>2 / (a\<^sup>2 / p + b\<^sup>2 / q))"
proof -
  have nz: "a\<^sup>2 / p + b\<^sup>2 / q \<noteq> 0" using satt_nonzero[OF ab p q] .
  have alg: "(a / (a + b)) * (a / (a + b)) / p + (b / (a + b)) * (b / (a + b)) / q
           = (a\<^sup>2 / p + b\<^sup>2 / q) / (a + b)\<^sup>2"
    using satt_algebra[OF ab, of p q a b] p q by simp
  have nz2: "(a / (a + b)) * (a / (a + b)) / p + (b / (a + b)) * (b / (a + b)) / q \<noteq> 0"
    unfolding alg using nz ab by simp
  have val: "1 / ((a / (a + b)) * (a / (a + b)) / p + (b / (a + b)) * (b / (a + b)) / q)
           = (a + b)\<^sup>2 / (a\<^sup>2 / p + b\<^sup>2 / q)"
    unfolding alg by simp
  have pq: "p \<noteq> 0" "q \<noteq> 0" using p q by simp_all
  show ?thesis using ab pq nz2 val by simp
qed

lemma dof_satt_finite:
  "dof_satt (map Some X) (map Some Y) =
     (if length X < 2 \<or> length Y < 2
         \<or> sample_variance X / real (length X) + sample_variance Y / real (length Y) = 0 then None
      else Some (welch_satterthwaite_dof X Y))"
proof (cases "length X < 2 \<or> length Y < 2")
  case True
  then show ?thesis
    by (auto simp: dof_satt_def sem_sq_finite Let_def)
next
  case False
  define a where "a = sample_variance X / real (length X)"
  define b where "b = sample_variance Y / real (length Y)"
  define p where "p = real (length X) - 1"
  define q where "q = real (length Y) - 1"
  have pq: "0 < p" "0 < q" using False by (simp_all add: p_def q_def)
  have sx: "sem_sq (map Some X) = Some a" and sy: "sem_sq (map Some Y) = Some b"
    using False by (simp_all add: sem_sq_finite a_def b_def)
  have nx: "nobs (map Some X) - 1 = p" and ny: "nobs (map Some Y) - 1 = q"
    by (simp_all add: nobs_def p_def q_def)
  show ?thesis
  proof (cases "a + b = 0")
    case True
    then show ?thesis using False
      unfolding dof_satt_def Let_def sx sy nx ny
      by (simp add: a_def b_def)
  next
    case ab: False
    have "dof_satt (map Some X) (map Some Y) = Some ((a + b)\<^sup>2 / (a\<^sup>2 / p + b\<^sup>2 / q))"
      unfolding dof_satt_def Let_def sx sy nx ny fl_add_simps
      by (rule dof_core[OF ab pq])
    also have "\<dots> = Some (welch_satterthwaite_dof X Y)"
      by (simp add: welch_satterthwaite_dof_def Let_def a_def b_def p_def q_def)
    finally show ?thesis using False ab by (simp add: a_def b_def)
  qed
qed


lemma tconfint_diff_finite:
  "tconfint_diff tq (map Some X) (map Some Y) \<alpha> =
     (case welch_interval tq X Y \<alpha> of None \<Rightarrow> (None, None)
      | Some (lo, hi) \<Rightarrow> (Some (- hi), Some (- lo)))"
proof (cases "length X < 2 \<or> length Y < 2
         \<or> sample_variance X / real (length X) + sample_variance Y / real (length Y) = 0")
  case True
  then show ?thesis
    by (auto simp: tconfint_diff_def tconfint_generic_def welch_interval_def Let_def
          dof_satt_finite std_meandiff_finite)
next
  case False
  then have ne: "X \<noteq> []" "Y \<noteq> []" by auto
  show ?thesis using False ne
    by (simp add: tconfint_diff_def tconfint_generic_def welch_interval_def Let_def
          dof_satt_finite std_meandiff_finite ds_mean_finite)
qed

text \<open>
  Claim C1, as amended. For non-empty samples \<open>X\<close> and \<open>Y\<close> and a significance level
  between 0 and 1, the comparator's significance flag is the negation of "Welch's interval
  for \<open>mean Y - mean X\<close> contains zero". (The library computes the interval for
  \<open>mean X - mean Y\<close>, which contains zero exactly when its mirror image does; an
  undefined interval, NaN in the script, contains nothing, so the flag is then true.) When
  both samples are the same, have at least two observations and a non-zero variance, the
  interval contains zero and the flag is false.
\<close>

theorem welch_significant_iff_interval_excludes_zero:
  assumes "X \<noteq> []" "Y \<noteq> []" "0 < \<alpha>" "\<alpha> < 1"
  shows "statistically_significant
           (welch_t_test_with_confidence_interval tq (map Some X) (map Some Y) \<alpha>)
         = (\<not> straddles_zero (welch_interval tq X Y \<alpha>))
       \<and> (X = Y \<and> 2 \<le> length X \<and> sample_variance X \<noteq> 0
            \<and> 0 \<le> tq (1 - \<alpha> / 2) (welch_satterthwaite_dof X Y)
          \<longrightarrow> straddles_zero (welch_interval tq X Y \<alpha>)
              \<and> \<not> statistically_significant
                    (welch_t_test_with_confidence_interval tq (map Some X) (map Some Y) \<alpha>))"
proof -
  have eq: "statistically_significant
           (welch_t_test_with_confidence_interval tq (map Some X) (map Some Y) \<alpha>)
         = (\<not> straddles_zero (welch_interval tq X Y \<alpha>))"
    by (auto simp: welch_t_test_with_confidence_interval_def Let_def tconfint_diff_finite
          straddles_zero_def split: option.splits)
  have same: "straddles_zero (welch_interval tq X X \<alpha>)"
    if h: "2 \<le> length X" "sample_variance X \<noteq> 0"
          "0 \<le> tq (1 - \<alpha> / 2) (welch_satterthwaite_dof X X)"
  proof -
    have "0 \<le> sqrt (sample_variance X / real (length X) + sample_variance X / real (length X))"
      using sem_nonneg[OF h(1)] by simp
    then have "0 \<le> tq (1 - \<alpha> / 2) (welch_satterthwaite_dof X X)
          * sqrt (sample_variance X / real (length X) + sample_variance X / real (length X))"
      using h(3) by simp
    moreover have "X \<noteq> []" using h(1) by auto
    ultimately show ?thesis using h(1,2)
      by (simp add: straddles_zero_def welch_interval_def Let_def)
  qed
  show ?thesis using eq same by auto
qed

theorem welch_significant_iff_interval_excludes_zero_witness:
  "[1, 3] \<noteq> ([] :: real list) \<and> (0 :: real) < 1 / 20 \<and> (1 / 20 :: real) < 1
   \<and> 2 \<le> length [1, 3 :: real] \<and> sample_variance [1, 3] \<noteq> 0
   \<and> 0 \<le> t_table (1 - (1 / 20) / 2) (welch_satterthwaite_dof [1, 3] [1, 3])
   \<and> straddles_zero (welch_interval t_table [1, 3] [1, 3] (1 / 20))
   \<and> \<not> statistically_significant
         (welch_t_test_with_confidence_interval t_table (map Some [1, 3]) (map Some [1, 3]) (1 / 20))"
proof -
  have v: "sample_variance [1, 3] = 2"
    by (simp add: sample_variance_def sum_sq_dev_def sample_mean_def)
  have t: "0 \<le> t_table (1 - (1 / 20) / 2) (welch_satterthwaite_dof [1, 3] [1, 3])"
    by (simp add: t_table_def)
  show ?thesis
    using welch_significant_iff_interval_excludes_zero [of "[1, 3]" "[1, 3]" "1 / 20" t_table] v t
    by simp
qed

text \<open>
  Claim C1 as stated fails for identical samples that are degenerate: for a constant sample
  and for a single observation, each compared with itself, both variances vanish or cannot
  be estimated, the interval is undefined (NaN bounds in the script, and a comparison with
  NaN is false) and the flag is true.
\<close>

theorem identical_constant_samples_flagged:
  "[10, 10, 10, 10] \<noteq> ([] :: real list) \<and> (0 :: real) < 1 / 20 \<and> (1 / 20 :: real) < 1
   \<and> \<not> straddles_zero (welch_interval t_table [10, 10, 10, 10] [10, 10, 10, 10] (1 / 20))
   \<and> statistically_significant
         (welch_t_test_with_confidence_interval t_table
            (map Some [10, 10, 10, 10]) (map Some [10, 10, 10, 10]) (1 / 20))
   \<and> [5] \<noteq> ([] :: real list)
   \<and> \<not> straddles_zero (welch_interval t_table [5] [5] (1 / 20))
   \<and> statistically_significant
         (welch_t_test_with_confidence_interval t_table (map Some [5]) (map Some [5]) (1 / 20))"
proof -
  have v: "sample_variance [10, 10, 10, 10] = 0"
    by (simp add: sample_variance_def sum_sq_dev_def sample_mean_def)
  have w: "welch_interval t_table [10, 10, 10, 10] [10, 10, 10, 10] (1 / 20) = None"
    by (simp add: welch_interval_def Let_def v)
  have w1: "welch_interval t_table [5] [5] (1 / 20) = None"
    by (simp add: welch_interval_def Let_def)
  have c: "tconfint_diff t_table (map Some [10, 10, 10, 10]) (map Some [10, 10, 10, 10]) (1 / 20)
             = (None, None)"
    unfolding tconfint_diff_finite w by simp
  have c1: "tconfint_diff t_table (map Some [5]) (map Some [5]) (1 / 20) = (None, None)"
    unfolding tconfint_diff_finite w1 by simp
  have f: "statistically_significant
         (welch_t_test_with_confidence_interval t_table
            (map Some [10, 10, 10, 10]) (map Some [10, 10, 10, 10]) (1 / 20))"
    unfolding welch_t_test_with_confidence_interval_def Let_def c by simp
  have f1: "statistically_significant
         (welch_t_test_with_confidence_interval t_table (map Some [5]) (map Some [5]) (1 / 20))"
    unfolding welch_t_test_with_confidence_interval_def Let_def c1 by simp
  show ?thesis
    using f f1 by (simp add: w w1 straddles_zero_def)
qed

lemma welch_half_width_finite:
  "ci_half_width (welch_t_test_with_confidence_interval tq (map Some X) (map Some Y) \<alpha>)
     = half_width (welch_interval tq X Y \<alpha>)"
  by (simp add: welch_t_test_with_confidence_interval_def Let_def tconfint_diff_finite
        half_width_def split: option.splits)

lemma welch_means_finite:
  "x_mean (welch_t_test_with_confidence_interval tq (map Some X) (map Some Y) \<alpha>) = ds_mean (map Some X)"
  "y_mean (welch_t_test_with_confidence_interval tq (map Some X) (map Some Y) \<alpha>) = ds_mean (map Some Y)"
  by (simp_all add: welch_t_test_with_confidence_interval_def Let_def)

lemma effect_size_ratio_min_max:
  "effect_size_ratio (Some a) (Some b) h =
     (fl_sub (fl_div (Some (max a b)) (Some (min a b))) (fl_div h (Some (min a b))),
      fl_add (fl_div (Some (max a b)) (Some (min a b))) (fl_div h (Some (min a b))))"
  by (cases "a < b") (auto simp: effect_size_ratio_def Let_def max_def min_def)

text \<open>
  Claim C5. For samples with distinct means, with \<open>small\<close> and \<open>large\<close> the smaller and
  the larger sample mean and \<open>h\<close> the half-width of Welch's interval for the difference of
  the means, the effect-size range the comparison row reports is
  \<open>[large / small - h / small, large / small + h / small]\<close>. The first equation computes
  with the script's arithmetic (a zero \<open>small\<close> or an undefined interval gives no number);
  the second spells the range out where the interval is defined and \<open>small\<close> is not zero.
\<close>

theorem effect_size_range_exact:
  assumes "X \<noteq> []" "Y \<noteq> []" "sample_mean X \<noteq> sample_mean Y"
  shows "c_effect_size (comparison_entry metric
            (welch_t_test_with_confidence_interval tq (map Some X) (map Some Y) \<alpha>))
       = (let small = Some (min (sample_mean X) (sample_mean Y));
              large = Some (max (sample_mean X) (sample_mean Y));
              h = half_width (welch_interval tq X Y \<alpha>)
          in (fl_sub (fl_div large small) (fl_div h small),
              fl_add (fl_div large small) (fl_div h small)))
     \<and> (\<forall>lo hi. welch_interval tq X Y \<alpha> = Some (lo, hi)
            \<and> min (sample_mean X) (sample_mean Y) \<noteq> 0 \<longrightarrow>
          c_effect_size (comparison_entry metric
            (welch_t_test_with_confidence_interval tq (map Some X) (map Some Y) \<alpha>))
          = (Some (max (sample_mean X) (sample_mean Y) / min (sample_mean X) (sample_mean Y)
                    - ((hi - lo) / 2) / min (sample_mean X) (sample_mean Y)),
             Some (max (sample_mean X) (sample_mean Y) / min (sample_mean X) (sample_mean Y)
                    + ((hi - lo) / 2) / min (sample_mean X) (sample_mean Y))))"
  using assms
  by (simp add: comparison_entry_def welch_half_width_finite welch_means_finite ds_mean_finite
        effect_size_ratio_min_max Let_def half_width_def)

lemma sqrt_25: "sqrt 25 = 5"
  by (rule real_sqrt_unique) simp_all

lemma example_interval:
  "welch_interval t_table [0, 6] [6, 14] (1 / 20) = Some (7 - 4.303 * 5, 7 + 4.303 * 5)"
proof -
  have m: "sample_mean [0, 6] = 3" "sample_mean [6, 14] = 10"
    by (simp_all add: sample_mean_def)
  have v: "sample_variance [0, 6] = 18" "sample_variance [6, 14] = 32"
    by (simp_all add: sample_variance_def sum_sq_dev_def m)
  have d: "welch_satterthwaite_dof [0, 6] [6, 14] = 625 / 337"
    by (simp add: welch_satterthwaite_dof_def Let_def v)
  show ?thesis
    by (simp add: welch_interval_def Let_def v d m sqrt_25 t_table_def)
qed

theorem effect_size_range_exact_witness:
  "[0, 6] \<noteq> ([] :: real list) \<and> [6, 14] \<noteq> ([] :: real list)
   \<and> sample_mean [0, 6] \<noteq> sample_mean [6, 14]
   \<and> welch_interval t_table [0, 6] [6, 14] (1 / 20) = Some (7 - 4.303 * 5, 7 + 4.303 * 5)
   \<and> min (sample_mean [0, 6]) (sample_mean [6, 14]) = 3
   \<and> max (sample_mean [0, 6]) (sample_mean [6, 14]) = 10
   \<and> c_effect_size (comparison_entry ''latency''
         (welch_t_test_with_confidence_interval t_table (map Some [0, 6]) (map Some [6, 14]) (1 / 20)))
       = (Some (10 / 3 - (4.303 * 5) / 3), Some (10 / 3 + (4.303 * 5) / 3))"
proof -
  have m: "sample_mean [0, 6] = 3" "sample_mean [6, 14] = 10"
    by (simp_all add: sample_mean_def)
  have h: "[0, 6] \<noteq> ([] :: real list)" "[6, 14] \<noteq> ([] :: real list)"
          "sample_mean [0, 6] \<noteq> sample_mean [6, 14]"
    by (simp_all add: m)
  from effect_size_range_exact [OF h, of "''latency''" t_table "1 / 20"]
  have "c_effect_size (comparison_entry ''latency''
         (welch_t_test_with_confidence_interval t_table (map Some [0, 6]) (map Some [6, 14]) (1 / 20)))
       = (let small = Some (min (sample_mean [0, 6]) (sample_mean [6, 14]));
              large = Some (max (sample_mean [0, 6]) (sample_mean [6, 14]));
              h = half_width (welch_interval t_table [0, 6] [6, 14] (1 / 20))
          in (fl_sub (fl_div large small) (fl_div h small),
              fl_add (fl_div large small) (fl_div h small)))"
    by (rule conjunct1)
  then show ?thesis
    using example_interval by (simp add: m half_width_def Let_def)
qed

lemma sample_mean_scale: "sample_mean (map ((*) c) xs) = c * sample_mean xs"
  by (simp add: sample_mean_def sum_list_const_mult)

lemma sum_sq_dev_scale: "sum_sq_dev (map ((*) c) xs) = c\<^sup>2 * sum_sq_dev xs"
proof -
  have "(\<Sum>x\<leftarrow>xs. (c * x - c * sample_mean xs)\<^sup>2) = (\<Sum>x\<leftarrow>xs. c\<^sup>2 * (x - sample_mean xs)\<^sup>2)"
    by (rule arg_cong[where f=sum_list], rule map_cong) (simp_all add: power2_eq_square algebra_simps)
  then show ?thesis
    by (simp add: sum_sq_dev_def sample_mean_scale comp_def sum_list_const_mult)
qed

lemma sample_variance_scale: "sample_variance (map ((*) c) xs) = c\<^sup>2 * sample_variance xs"
  by (simp add: sample_variance_def sum_sq_dev_scale)

lemma dof_scale:
  assumes "c \<noteq> 0"
  shows "welch_satterthwaite_dof (map ((*) c) X) (map ((*) c) Y) = welch_satterthwaite_dof X Y"
proof -
  define a where "a = sample_variance X / real (length X)"
  define b where "b = sample_variance Y / real (length Y)"
  define p where "p = real (length X) - 1"
  define q where "q = real (length Y) - 1"
  have c2: "c\<^sup>2 \<noteq> 0" using assms by simp
  have e1: "(c\<^sup>2 * a + c\<^sup>2 * b)\<^sup>2 = (c\<^sup>2)\<^sup>2 * (a + b)\<^sup>2"
    by (simp add: distrib_left[symmetric] power_mult_distrib)
  have e2: "(c\<^sup>2 * a)\<^sup>2 / p + (c\<^sup>2 * b)\<^sup>2 / q = (c\<^sup>2)\<^sup>2 * (a\<^sup>2 / p + b\<^sup>2 / q)"
    by (simp add: power_mult_distrib distrib_left)
  have "(c\<^sup>2 * a + c\<^sup>2 * b)\<^sup>2 / ((c\<^sup>2 * a)\<^sup>2 / p + (c\<^sup>2 * b)\<^sup>2 / q)
        = ((c\<^sup>2)\<^sup>2 * (a + b)\<^sup>2) / ((c\<^sup>2)\<^sup>2 * (a\<^sup>2 / p + b\<^sup>2 / q))"
    unfolding e1 e2 ..
  also have "\<dots> = (a + b)\<^sup>2 / (a\<^sup>2 / p + b\<^sup>2 / q)"
    using c2 by simp
  finally show ?thesis
    by (simp add: welch_satterthwaite_dof_def Let_def sample_variance_scale a_def b_def p_def q_def)
qed

lemma welch_interval_scale:
  assumes "0 < c"
  shows "welch_interval tq (map ((*) c) X) (map ((*) c) Y) \<alpha>
         = map_option (\<lambda>b. (c * fst b, c * snd b)) (welch_interval tq X Y \<alpha>)"
proof -
  define a where "a = sample_variance X / real (length X)"
  define b where "b = sample_variance Y / real (length Y)"
  have c0: "c \<noteq> 0" "c\<^sup>2 \<noteq> 0" using assms by simp_all
  have s: "c\<^sup>2 * a + c\<^sup>2 * b = c\<^sup>2 * (a + b)" by (simp add: algebra_simps)
  have z: "(c\<^sup>2 * a + c\<^sup>2 * b = 0) = (a + b = 0)" unfolding s using c0 by simp
  have r: "sqrt (c\<^sup>2 * a + c\<^sup>2 * b) = c * sqrt (a + b)"
    unfolding s using assms by (simp add: real_sqrt_mult)
  show ?thesis
    using z r
    by (simp add: welch_interval_def Let_def sample_variance_scale sample_mean_scale dof_scale[OF c0(1)]
          a_def b_def algebra_simps)
qed

lemma effect_size_finite:
  assumes "X \<noteq> []" "Y \<noteq> []"
  shows "c_effect_size (comparison_entry metric
            (welch_t_test_with_confidence_interval tq (map Some X) (map Some Y) \<alpha>))
       = effect_size_ratio (Some (sample_mean X)) (Some (sample_mean Y))
           (half_width (welch_interval tq X Y \<alpha>))"
  using assms
  by (simp add: comparison_entry_def welch_half_width_finite welch_means_finite ds_mean_finite)

lemma effect_size_ratio_scale:
  assumes "0 < c"
  shows "effect_size_ratio (Some (c * a)) (Some (c * b))
           (half_width (map_option (\<lambda>b. (c * fst b, c * snd b)) ci))
         = effect_size_ratio (Some a) (Some b) (half_width ci)"
proof -
  have lt: "(c * a < c * b) = (a < b)" using assms by simp
  have hw: "half_width (map_option (\<lambda>b. (c * fst b, c * snd b)) ci)
            = map_option (\<lambda>h. c * h) (half_width ci)"
    by (cases ci) (simp_all add: half_width_def algebra_simps)
  show ?thesis
    unfolding hw using assms lt
    by (cases "half_width ci") (auto simp: effect_size_ratio_def Let_def)
qed

text \<open>
  Claim C6. For samples with distinct positive means and a positive constant \<open>c\<close>, the
  effect-size range reported for the samples scaled by \<open>c\<close> is the range reported for the
  samples themselves.
\<close>

theorem effect_size_scale_invariant:
  assumes "0 < c" "0 < sample_mean X" "0 < sample_mean Y" "sample_mean X \<noteq> sample_mean Y"
  shows "c_effect_size (comparison_entry metric
            (welch_t_test_with_confidence_interval tq
               (map Some (map ((*) c) X)) (map Some (map ((*) c) Y)) \<alpha>))
       = c_effect_size (comparison_entry metric
            (welch_t_test_with_confidence_interval tq (map Some X) (map Some Y) \<alpha>))"
proof -
  have ne: "X \<noteq> []" "Y \<noteq> []" using assms(2,3) by (auto simp: sample_mean_def)
  then have ne': "map ((*) c) X \<noteq> []" "map ((*) c) Y \<noteq> []" by simp_all
  show ?thesis
    unfolding effect_size_finite[OF ne] effect_size_finite[OF ne']
      sample_mean_scale welch_interval_scale[OF assms(1)]
    by (rule effect_size_ratio_scale[OF assms(1)])
qed

theorem effect_size_scale_invariant_witness:
  "(0 :: real) < 2 \<and> 0 < sample_mean [0, 6] \<and> 0 < sample_mean [6, 14]
   \<and> sample_mean [0, 6] \<noteq> sample_mean [6, 14]
   \<and> c_effect_size (comparison_entry ''latency''
         (welch_t_test_with_confidence_interval t_table
            (map Some (map ((*) 2) [0, 6])) (map Some (map ((*) 2) [6, 14])) (1 / 20)))
     = c_effect_size (comparison_entry ''latency''
         (welch_t_test_with_confidence_interval t_table (map Some [0, 6]) (map Some [6, 14]) (1 / 20)))"
proof -
  have h: "(0 :: real) < 2" "0 < sample_mean [0, 6]" "0 < sample_mean [6, 14]"
          "sample_mean [0, 6] \<noteq> sample_mean [6, 14]"
    by (simp_all add: sample_mean_def)
  from effect_size_scale_invariant [OF h, of "''latency''" t_table "1 / 20"] h
  show ?thesis by blast
qed

section \<open>The aggregate store\<close>

text \<open>
  Claim C7. When no store exists the new records become the store as they are. Otherwise
  the merged store has the rows of the old store, unchanged and in place, followed by the
  new rows: \<open>m + n\<close> rows from \<open>m\<close> and \<open>n\<close>, with nothing removed or checked.
\<close>

theorem merge_appends_rows:
  "create_or_update_aggregate_csv new None = new
   \<and> length (agg_rows (create_or_update_aggregate_csv new (Some old)))
       = length (agg_rows old) + length (agg_rows new)
   \<and> take (length (agg_rows old)) (agg_rows (create_or_update_aggregate_csv new (Some old)))
       = agg_rows old
   \<and> drop (length (agg_rows old)) (agg_rows (create_or_update_aggregate_csv new (Some old)))
       = agg_rows new"
  by (simp add: create_or_update_aggregate_csv_def concat_frames_def)

section \<open>The loader\<close>

lemma df_rows_computed_columns:
  "map mechanism (df_rows (computed_columns p df)) = map mechanism (df_rows df)"
  by (simp add: computed_columns_def set_column_def comp_def)

lemma parse_rows_requested:
  "r \<in> set (df_rows (parse_csv_rows csv ms metrics v p)) \<Longrightarrow> mechanism r \<in> set ms"
  by (simp add: parse_csv_rows_def Let_def)

text \<open>
  Claim C3, on a table with one row for each of \<open>docker_container\<close>,
  \<open>docker_container_and_daemon\<close>, \<open>docker_container_and_daemon_extra_overhead\<close> and
  \<open>native\<close>, under the include-full-daemon view (1). The isolated-container row is
  dropped and the full-daemon row becomes \<open>docker\<close>, but the extra-overhead row is
  not dropped: it becomes \<open>docker\<close> too, because the renaming matches by prefix and runs
  before the rows are removed.
\<close>

theorem docker_full_daemon_view_example:
  "map mechanism (df_rows (parse_csv_rows example_csv [''docker'', ''native''] [''cpu-cycles''] 1 True))
     = [''docker'', ''docker'', ''native'']"
  by (simp add: parse_csv_rows_def example_csv_def keep_columns_def NON_METRIC_COLUMNS_def
        docker_overhead_rows_def rename_mechanisms_def drop_rows_starting_with_def startswith_def
        computed_columns_def Let_def)

lemma startswith_iff: "startswith s p = (\<exists>t. s = p @ t)"
proof
  assume "startswith s p"
  then have "s = p @ drop (length p) s"
    unfolding startswith_def by (metis append_take_drop_id)
  then show "\<exists>t. s = p @ t" ..
next
  assume "\<exists>t. s = p @ t"
  then show "startswith s p" unfolding startswith_def by auto
qed

lemma startswith_trans: "startswith m p \<Longrightarrow> startswith p q \<Longrightarrow> startswith m q"
  unfolding startswith_iff by auto

lemma startswith_daemon_container:
  assumes "startswith m ''docker_container_and_daemon''"
  shows "startswith m ''docker_container''"
  by (rule startswith_trans[OF assms]) (simp add: startswith_def)

lemma startswith_extra_container:
  assumes "startswith m ''docker_container_and_daemon_extra_overhead''"
  shows "startswith m ''docker_container''"
  by (rule startswith_trans[OF assms]) (simp add: startswith_def)

lemma startswith_self: "startswith ''docker_container'' ''docker_container''"
  by (simp add: startswith_def)

lemma docker_overhead_rows_origin:
  assumes "r \<in> set (df_rows (docker_overhead_rows v df))"
  shows "\<exists>r0 \<in> set (df_rows df). mechanism r = mechanism r0
           \<or> (startswith (mechanism r0) ''docker_container'' \<and> mechanism r = ''docker'')"
proof -
  from assms obtain r0 where r0: "r0 \<in> set (df_rows df)"
    and m: "mechanism r = mechanism r0
        \<or> (mechanism r0 = ''docker_container'' \<and> mechanism r = ''docker'')
        \<or> (startswith (mechanism r0) ''docker_container_and_daemon'' \<and> mechanism r = ''docker'')
        \<or> (startswith (mechanism r0) ''docker_container_and_daemon_extra_overhead''
             \<and> mechanism r = ''docker'')"
    by (auto simp: docker_overhead_rows_def drop_rows_starting_with_def rename_mechanisms_def
        split: if_splits)
  from m have "mechanism r = mechanism r0
           \<or> (startswith (mechanism r0) ''docker_container'' \<and> mechanism r = ''docker'')"
    using startswith_daemon_container startswith_extra_container startswith_self by metis
  with r0 show ?thesis by blast
qed

lemma keep_columns_mechanisms:
  "r \<in> set (df_rows (keep_columns keep df)) \<Longrightarrow> \<exists>r0 \<in> set (df_rows df). mechanism r = mechanism r0"
  by (auto simp: keep_columns_def)

lemma computed_columns_mechanisms:
  "r \<in> set (df_rows (computed_columns p df)) \<Longrightarrow> \<exists>r0 \<in> set (df_rows df). mechanism r = mechanism r0"
  by (auto simp: computed_columns_def set_column_def split: if_splits)

text \<open>
  Claim C10. Every row the loader returns has a deployment mechanism from the requested
  list. It comes from a row of the file whose mechanism is the same, or whose mechanism
  starts with \<open>docker_container\<close> and was renamed to \<open>docker\<close>; so a name starting
  with \<open>docker_container\<close> is in the output only if it was itself requested.
\<close>

theorem parse_csv_rows_only_requested:
  assumes "r \<in> set (df_rows (parse_csv_rows csv deployment_mechanisms metrics docker_overhead_view is_perf_file))"
  shows "mechanism r \<in> set deployment_mechanisms
       \<and> (\<exists>r0 \<in> set (df_rows csv). mechanism r = mechanism r0
             \<or> (startswith (mechanism r0) ''docker_container'' \<and> mechanism r = ''docker''))
       \<and> (startswith (mechanism r) ''docker_container''
            \<longrightarrow> mechanism r \<in> set deployment_mechanisms)"
proof -
  from assms have req: "mechanism r \<in> set deployment_mechanisms"
    and mem: "r \<in> set (df_rows (computed_columns is_perf_file
                 (docker_overhead_rows docker_overhead_view
                    (keep_columns (NON_METRIC_COLUMNS @ metrics) csv))))"
    by (simp_all add: parse_csv_rows_def Let_def)
  from computed_columns_mechanisms[OF mem] obtain r1
    where r1: "r1 \<in> set (df_rows (docker_overhead_rows docker_overhead_view
                    (keep_columns (NON_METRIC_COLUMNS @ metrics) csv)))"
      and e1: "mechanism r = mechanism r1" by blast
  from docker_overhead_rows_origin[OF r1] obtain r2
    where r2: "r2 \<in> set (df_rows (keep_columns (NON_METRIC_COLUMNS @ metrics) csv))"
      and e2: "mechanism r1 = mechanism r2
           \<or> (startswith (mechanism r2) ''docker_container'' \<and> mechanism r1 = ''docker'')" by blast
  from keep_columns_mechanisms[OF r2] obtain r0
    where r0: "r0 \<in> set (df_rows csv)" and e0: "mechanism r2 = mechanism r0" by blast
  have "mechanism r = mechanism r0
           \<or> (startswith (mechanism r0) ''docker_container'' \<and> mechanism r = ''docker'')"
    using e1 e2 e0 by auto
  with r0 req show ?thesis by blast
qed

lemma exclude_daemon_view_example:
  "map mechanism (df_rows (parse_csv_rows example_csv [''docker'', ''native''] [''cpu-cycles''] 0 True))
     = [''docker'', ''native'']"
  by (simp add: parse_csv_rows_def example_csv_def keep_columns_def NON_METRIC_COLUMNS_def
        docker_overhead_rows_def rename_mechanisms_def drop_rows_starting_with_def startswith_def
        computed_columns_def Let_def)

theorem parse_csv_rows_only_requested_witness:
  "hd (df_rows (parse_csv_rows example_csv [''docker'', ''native''] [''cpu-cycles''] 0 True))
     \<in> set (df_rows (parse_csv_rows example_csv [''docker'', ''native''] [''cpu-cycles''] 0 True))
   \<and> mechanism (hd (df_rows (parse_csv_rows example_csv [''docker'', ''native''] [''cpu-cycles''] 0 True)))
     \<in> set [''docker'', ''native'']"
proof -
  have "df_rows (parse_csv_rows example_csv [''docker'', ''native''] [''cpu-cycles''] 0 True) \<noteq> []"
    using exclude_daemon_view_example by auto
  then have h: "hd (df_rows (parse_csv_rows example_csv [''docker'', ''native''] [''cpu-cycles''] 0 True))
     \<in> set (df_rows (parse_csv_rows example_csv [''docker'', ''native''] [''cpu-cycles''] 0 True))"
    by simp
  from parse_csv_rows_only_requested [OF h] h show ?thesis by blast
qed

section \<open>The comparison across experiments\<close>

text \<open>
  Claim C9, on a store with the inputs \<open>a\<close> and \<open>b\<close> of model \<open>m1\<close>: comparing
  across inputs with saving on writes the line chart of the metric under a name that
  starts with \<open>aggregate_models_\<close>, not \<open>aggregate_inputs_\<close>.
\<close>

theorem across_inputs_filename_example:
  "compare_across_inputs example_store [''a'', ''b''] ''m1'' [''latency''] False True ''plots''
     = \<lparr> plots_saved = [''plots/aggregate_models_a_b_for_model_m1-latency-lineplot.png''],
         figures_shown = [], raised = None \<rparr>"
  by (simp add: compare_across_inputs_def compare_across_models_or_inputs_def
        chart_compare_across_models_or_inputs_def example_store_def Let_def
        DEPLOYMENT_MECHANISM_TO_COLOR_def DEPLOYMENT_MECHANISM_TO_LINESTYLE_def
        path_join_def replace_char_def)

section \<open>Facts about the analysis\<close>

lemma assign_append: "assign (kvs @ kvs') m = assign kvs' (assign kvs m)"
  by (simp add: assign_def)

lemma assign_apply:
  "assign kvs m c = (case map_of (rev kvs) c of None \<Rightarrow> m c | Some v \<Rightarrow> v)"
proof (induction kvs arbitrary: m)
  case Nil
  then show ?case by (simp add: assign_def)
next
  case (Cons kv kvs)
  have "assign (kv # kvs) m = assign kvs (m(fst kv := snd kv))"
    by (simp add: assign_def)
  then show ?case
    by (cases kv) (auto simp: Cons.IH map_add_def split: option.splits)
qed

lemma assign_idem: "assign kvs (assign kvs m) = assign kvs m"
  by (rule ext) (simp add: assign_apply split: option.splits)

lemma assign_absorb: "assign (kvs @ kvs) m = assign kvs m"
  by (simp add: assign_append assign_idem)

lemma own_row_idem: "own_row tq df \<alpha> metrics (own_row tq df \<alpha> metrics r) = own_row tq df \<alpha> metrics r"
  by (simp add: own_row_def assign_idem)

lemma own_row_mechanism [simp]: "agg_mechanism (own_row tq df \<alpha> metrics r) = agg_mechanism r"
  by (simp add: own_row_def)

lemma welch_own_fields:
  "x_mean (welch_t_test_with_confidence_interval tq ax ay \<alpha>) = ds_mean ax"
  "y_mean (welch_t_test_with_confidence_interval tq ax ay \<alpha>) = ds_mean ay"
  "x_ci (welch_t_test_with_confidence_interval tq ax ay \<alpha>) = tconfint_mean tq ax \<alpha>"
  "y_ci (welch_t_test_with_confidence_interval tq ax ay \<alpha>) = tconfint_mean tq ay \<alpha>"
  by (simp_all add: welch_t_test_with_confidence_interval_def Let_def)

lemma analyze_metric_fields:
  "ps_aggregate (analyze_metric tq df \<alpha> incl view dx dy st k)
     = loc_set dy (own_values tq df \<alpha> dy k) (loc_set dx (own_values tq df \<alpha> dx k) (ps_aggregate st))"
  "ps_comparison (analyze_metric tq df \<alpha> incl view dx dy st k)
     = ps_comparison st @ [comparison_entry k (pair_welch tq df \<alpha> dx dy k)]"
  "ps_console (analyze_metric tq df \<alpha> incl view dx dy st k)
     = ps_console st @ report_lines \<alpha> incl view dx dy k (pair_welch tq df \<alpha> dx dy k)"
  by (simp_all add: analyze_metric_def Let_def welch_own_fields own_values_def pair_welch_def)

lemma metrics_loop_comparison:
  "ps_comparison (foldl (analyze_metric tq df \<alpha> incl view dx dy) st metrics)
     = ps_comparison st @ map (\<lambda>k. comparison_entry k (pair_welch tq df \<alpha> dx dy k)) metrics"
  by (induction metrics arbitrary: st) (simp_all add: analyze_metric_fields)

lemma metrics_loop_console:
  "ps_console (foldl (analyze_metric tq df \<alpha> incl view dx dy) st metrics)
     = ps_console st @ pair_report tq df \<alpha> incl view metrics dx dy"
  by (induction metrics arbitrary: st) (simp_all add: analyze_metric_fields pair_report_def)

lemma loc_set_twice_row:
  "loc_set dy (own_values tq df \<alpha> dy k) (loc_set dx (own_values tq df \<alpha> dx k) rs)
     = map (\<lambda>r. if agg_mechanism r = dx \<or> agg_mechanism r = dy
                 then r\<lparr>agg_cells := assign (own_values tq df \<alpha> (agg_mechanism r) k) (agg_cells r)\<rparr>
                 else r) rs"
  by (auto simp: loc_set_def assign_idem)

lemma metrics_loop_aggregate:
  "ps_aggregate (foldl (analyze_metric tq df \<alpha> incl view dx dy) st metrics)
     = map (overwritten tq df \<alpha> metrics {dx, dy}) (ps_aggregate st)"
proof (induction metrics arbitrary: st)
  case Nil
  show ?case
    by (simp add: overwritten_def own_row_def own_assignments_def assign_def map_idI)
next
  case (Cons k metrics)
  have "overwritten tq df \<alpha> metrics {dx, dy}
          (if agg_mechanism r = dx \<or> agg_mechanism r = dy
           then r\<lparr>agg_cells := assign (own_values tq df \<alpha> (agg_mechanism r) k) (agg_cells r)\<rparr>
           else r)
        = overwritten tq df \<alpha> (k # metrics) {dx, dy} r" for r
    by (simp add: overwritten_def own_row_def own_assignments_def assign_append)
  then show ?case
    by (simp add: Cons.IH analyze_metric_fields(1) loc_set_twice_row comp_def)
qed

lemma analyze_pair_fields:
  "aggregate (analyze_pair tq df \<alpha> metrics model inp path incl view save st p)
     = map (overwritten tq df \<alpha> metrics {fst p, snd p}) (aggregate st)"
  "console (analyze_pair tq df \<alpha> metrics model inp path incl view save st p)
     = console st @ pair_report tq df \<alpha> incl view metrics (fst p) (snd p)"
  "saved (analyze_pair tq df \<alpha> metrics model inp path incl view save st p)
     = saved st @ (if save then
                     [(path_join path (comparison_csv_filename model inp (fst p) (snd p)),
                       pair_table tq df \<alpha> metrics (fst p) (snd p))]
                   else [])"
  by (simp_all add: analyze_pair_def Let_def metrics_loop_aggregate metrics_loop_console
        metrics_loop_comparison pair_table_def)

lemma overwritten_compose:
  "overwritten tq df \<alpha> metrics T (overwritten tq df \<alpha> metrics S r)
     = overwritten tq df \<alpha> metrics (S \<union> T) r"
  by (simp add: overwritten_def own_row_idem)

lemma mechanisms_in_Cons: "mechanisms_in (p # ps) = {fst p, snd p} \<union> mechanisms_in ps"
  by (auto simp: mechanisms_in_def)

lemma analyze_pairs_aggregate:
  "aggregate (analyze_pairs tq df \<alpha> metrics model inp path incl view save ps st)
     = map (overwritten tq df \<alpha> metrics (mechanisms_in ps)) (aggregate st)"
proof (induction ps arbitrary: st)
  case Nil
  show ?case
    by (simp add: analyze_pairs_def overwritten_def mechanisms_in_def map_idI)
next
  case (Cons p ps)
  have "aggregate (analyze_pairs tq df \<alpha> metrics model inp path incl view save (p # ps) st)
      = aggregate (analyze_pairs tq df \<alpha> metrics model inp path incl view save ps
          (analyze_pair tq df \<alpha> metrics model inp path incl view save st p))"
    by (simp add: analyze_pairs_def)
  then show ?case
    by (simp add: Cons.IH analyze_pair_fields(1) comp_def overwritten_compose mechanisms_in_Cons)
qed

lemma analyze_pairs_console:
  "console (analyze_pairs tq df \<alpha> metrics model inp path incl view save ps st)
     = console st @ concat (map (\<lambda>p. pair_report tq df \<alpha> incl view metrics (fst p) (snd p)) ps)"
proof (induction ps arbitrary: st)
  case Nil
  show ?case by (simp add: analyze_pairs_def)
next
  case (Cons p ps)
  have "console (analyze_pairs tq df \<alpha> metrics model inp path incl view save (p # ps) st)
      = console (analyze_pairs tq df \<alpha> metrics model inp path incl view save ps
          (analyze_pair tq df \<alpha> metrics model inp path incl view save st p))"
    by (simp add: analyze_pairs_def)
  then show ?case by (simp add: Cons.IH analyze_pair_fields(2))
qed

lemma analyze_pairs_saved:
  "saved (analyze_pairs tq df \<alpha> metrics model inp path incl view save ps st)
     = saved st @ (if save then
                     map (\<lambda>p. (path_join path (comparison_csv_filename model inp (fst p) (snd p)),
                               pair_table tq df \<alpha> metrics (fst p) (snd p))) ps
                   else [])"
proof (induction ps arbitrary: st)
  case Nil
  show ?case by (simp add: analyze_pairs_def)
next
  case (Cons p ps)
  have "saved (analyze_pairs tq df \<alpha> metrics model inp path incl view save (p # ps) st)
      = saved (analyze_pairs tq df \<alpha> metrics model inp path incl view save ps
          (analyze_pair tq df \<alpha> metrics model inp path incl view save st p))"
    by (simp add: analyze_pairs_def)
  then show ?case by (simp add: Cons.IH analyze_pair_fields(3))
qed

lemma mechanisms_in_map_Pair: "xs \<noteq> [] \<Longrightarrow> mechanisms_in (map (Pair x) xs) = insert x (set xs)"
  by (auto simp: mechanisms_in_def image_iff)

lemma mechanisms_in_append: "mechanisms_in (ps @ qs) = mechanisms_in ps \<union> mechanisms_in qs"
  by (auto simp: mechanisms_in_def)

lemma mechanisms_in_combinations2:
  "mechanisms_in (combinations2 xs) = (if 2 \<le> length xs then set xs else {})"
proof (induction xs)
  case Nil
  show ?case by (simp add: mechanisms_in_def)
next
  case (Cons x xs)
  show ?case
  proof (cases xs)
    case Nil
    then show ?thesis by (simp add: mechanisms_in_def)
  next
    case (Cons y ys)
    then have ne: "xs \<noteq> []" and len: "Suc 0 \<le> length xs" by simp_all
    show ?thesis
      using Cons.IH ne len
      by (auto simp: mechanisms_in_append mechanisms_in_map_Pair split: if_splits)
  qed
qed

lemma analyze_closed_form:
  assumes "analyze_data_significant_difference tq df \<alpha> metrics model inp path incl view save = Inr res"
  shows "agg_rows (returned_df res)
           = map (overwritten tq df \<alpha> metrics
                    (mechanisms_in (combinations2 (unique (map mechanism (df_rows df))))))
               (agg_rows (initialize_aggregate_df metrics (unique (map mechanism (df_rows df))) model inp))"
    and "printed res
           = concat (map (\<lambda>p. pair_report tq df \<alpha> incl view metrics (fst p) (snd p))
                       (combinations2 (unique (map mechanism (df_rows df)))))"
    and "written res
           = (if save then
                map (\<lambda>p. (path_join path (comparison_csv_filename model inp (fst p) (snd p)),
                          pair_table tq df \<alpha> metrics (fst p) (snd p)))
                  (combinations2 (unique (map mechanism (df_rows df))))
              else [])"
  using assms
  by (auto simp: analyze_data_significant_difference_def Let_def analyze_pairs_aggregate
        analyze_pairs_console analyze_pairs_saved split: if_splits)

lemma initialize_rows_mechanisms:
  "r \<in> set (agg_rows (initialize_aggregate_df metrics mechs model inp)) \<Longrightarrow> agg_mechanism r \<in> set mechs"
  by (auto simp: initialize_aggregate_df_def)

lemma analyze_returns:
  "set metrics \<subseteq> set (df_columns df) \<Longrightarrow>
   analyze_data_significant_difference tq df \<alpha> metrics model inp path incl view save
     = Inr (projr (analyze_data_significant_difference tq df \<alpha> metrics model inp path incl view save))"
  by (simp add: analyze_data_significant_difference_def Let_def)

lemma example_trials_mechanisms:
  "unique (map mechanism (df_rows example_trials)) = [''native'', ''docker'']"
  by (simp add: example_trials_def)

lemma example_trials_groups:
  "get_group example_trials ''native'' ''latency'' = map Some [0, 6]"
  "get_group example_trials ''docker'' ''latency'' = map Some [6, 14]"
  by (simp_all add: example_trials_def get_group_def)

text \<open>
  Claim C4. The analysis is a function of its input, so a second run on the same input
  returns the same aggregate rows. What a run leaves in the aggregate does not depend on
  the partner a mechanism was compared with or on the order of the pairs: two
  enumerations of pairs that cover the same mechanisms give the same aggregate, and going
  through the pairs a second time changes nothing. In the table the analysis returns, the
  row of a mechanism holds the values computed from that mechanism's own sample (its mean
  and its own confidence interval), provided there are at least two mechanisms; with fewer
  there is no pair and the row stays empty.
\<close>

theorem aggregate_depends_on_own_sample:
  "(mechanisms_in ps = mechanisms_in ps' \<longrightarrow>
      aggregate (analyze_pairs tq df \<alpha> metrics model inp path incl view save ps st)
        = aggregate (analyze_pairs tq df \<alpha> metrics model inp path' incl' view' save' ps' st))
   \<and> aggregate (analyze_pairs tq df \<alpha> metrics model inp path incl view save ps
         (analyze_pairs tq df \<alpha> metrics model inp path incl view save ps st))
       = aggregate (analyze_pairs tq df \<alpha> metrics model inp path incl view save ps st)
   \<and> (analyze_data_significant_difference tq df \<alpha> metrics model inp path incl view save = Inr res
        \<longrightarrow> agg_rows (returned_df res)
            = map (\<lambda>r. if 2 \<le> length (unique (map mechanism (df_rows df)))
                        then own_row tq df \<alpha> metrics r else r)
                (agg_rows (initialize_aggregate_df metrics
                             (unique (map mechanism (df_rows df))) model inp)))"
proof (intro conjI impI)
  assume "mechanisms_in ps = mechanisms_in ps'"
  then show "aggregate (analyze_pairs tq df \<alpha> metrics model inp path incl view save ps st)
        = aggregate (analyze_pairs tq df \<alpha> metrics model inp path' incl' view' save' ps' st)"
    by (simp add: analyze_pairs_aggregate)
next
  show "aggregate (analyze_pairs tq df \<alpha> metrics model inp path incl view save ps
         (analyze_pairs tq df \<alpha> metrics model inp path incl view save ps st))
       = aggregate (analyze_pairs tq df \<alpha> metrics model inp path incl view save ps st)"
    by (simp add: analyze_pairs_aggregate comp_def overwritten_compose)
next
  assume run: "analyze_data_significant_difference tq df \<alpha> metrics model inp path incl view save = Inr res"
  show "agg_rows (returned_df res)
            = map (\<lambda>r. if 2 \<le> length (unique (map mechanism (df_rows df)))
                        then own_row tq df \<alpha> metrics r else r)
                (agg_rows (initialize_aggregate_df metrics
                             (unique (map mechanism (df_rows df))) model inp))"
    unfolding analyze_closed_form(1)[OF run] mechanisms_in_combinations2
    by (rule map_cong) (auto simp: overwritten_def dest: initialize_rows_mechanisms)
qed

theorem aggregate_depends_on_own_sample_witness:
  "mechanisms_in [(''native'', ''docker'')] = mechanisms_in [(''docker'', ''native'')]
   \<and> aggregate (analyze_pairs t_table example_trials (1 / 20) [''latency''] ''m1'' ''a'' ''cmp''
        False False False [(''native'', ''docker'')]
        \<lparr> aggregate = agg_rows (initialize_aggregate_df [''latency''] [''native'', ''docker''] ''m1'' ''a''),
          console = [], saved = [] \<rparr>)
     = aggregate (analyze_pairs t_table example_trials (1 / 20) [''latency''] ''m1'' ''a'' ''cmp''
        False False False [(''docker'', ''native'')]
        \<lparr> aggregate = agg_rows (initialize_aggregate_df [''latency''] [''native'', ''docker''] ''m1'' ''a''),
          console = [], saved = [] \<rparr>)
   \<and> analyze_data_significant_difference t_table example_trials (1 / 20) [''latency''] ''m1'' ''a''
        ''cmp'' False False False
     = Inr (projr (analyze_data_significant_difference t_table example_trials (1 / 20) [''latency'']
              ''m1'' ''a'' ''cmp'' False False False))
   \<and> agg_rows (returned_df (projr (analyze_data_significant_difference t_table example_trials
         (1 / 20) [''latency''] ''m1'' ''a'' ''cmp'' False False False)))
     = map (own_row t_table example_trials (1 / 20) [''latency''])
         (agg_rows (initialize_aggregate_df [''latency''] [''native'', ''docker''] ''m1'' ''a''))"
proof -
  have m: "mechanisms_in [(''native'', ''docker'')] = mechanisms_in [(''docker'', ''native'')]"
    by (auto simp: mechanisms_in_def)
  have r: "analyze_data_significant_difference t_table example_trials (1 / 20) [''latency''] ''m1'' ''a''
        ''cmp'' False False False
     = Inr (projr (analyze_data_significant_difference t_table example_trials (1 / 20) [''latency'']
              ''m1'' ''a'' ''cmp'' False False False))"
    by (rule analyze_returns) (simp add: example_trials_def)
  note t = aggregate_depends_on_own_sample
    [of "[(''native'', ''docker'')]" "[(''docker'', ''native'')]" t_table example_trials "1 / 20"
        "[''latency'']" "''m1''" "''a''" "''cmp''" False False False
        "\<lparr> aggregate = agg_rows (initialize_aggregate_df [''latency''] [''native'', ''docker''] ''m1'' ''a''),
          console = [], saved = [] \<rparr>"
        "''cmp''" False False False
        "projr (analyze_data_significant_difference t_table example_trials (1 / 20) [''latency'']
              ''m1'' ''a'' ''cmp'' False False False)"]
  from t m r show ?thesis
    by (simp add: example_trials_mechanisms)
qed

lemma differ_by_ending: "take 3 (rev x) \<noteq> take 3 (rev y) \<Longrightarrow> x \<noteq> y"
  by auto

lemma column_names_differ:
  "k @ ''-mean'' \<noteq> k' @ ''-error-lower''"
  "k @ ''-mean'' \<noteq> k' @ ''-error-upper''"
  "k @ ''-error-lower'' \<noteq> k' @ ''-mean''"
  "k @ ''-error-upper'' \<noteq> k' @ ''-mean''"
  "k @ ''-error-lower'' \<noteq> k' @ ''-error-upper''"
  "k @ ''-error-upper'' \<noteq> k' @ ''-error-lower''"
  by (rule differ_by_ending, simp)+

lemma map_of_unique_value:
  assumes "(c, v) \<in> set kvs" and "\<And>v'. (c, v') \<in> set kvs \<Longrightarrow> v' = v"
  shows "map_of kvs c = Some v"
proof -
  from assms(1) obtain x where x: "map_of kvs c = Some x"
    using weak_map_of_SomeI[of c v kvs] by blast
  then have "(c, x) \<in> set kvs" by (rule map_of_SomeD)
  with assms(2) x show ?thesis by simp
qed

lemma own_values_set:
  "set (own_values tq df \<alpha> m k)
     = {(k @ ''-mean'', ds_mean (get_group df m k)),
        (k @ ''-error-lower'',
           fl_sub (ds_mean (get_group df m k)) (fst (tconfint_mean tq (get_group df m k) \<alpha>))),
        (k @ ''-error-upper'',
           fl_sub (snd (tconfint_mean tq (get_group df m k) \<alpha>)) (ds_mean (get_group df m k)))}"
  by (simp add: own_values_def aggregate_values_def metric_columns_def)

lemma own_values_keys:
  "(k @ ''-mean'', v) \<in> set (own_values tq df \<alpha> m k')
     \<Longrightarrow> k' = k \<and> v = ds_mean (get_group df m k)"
  "(k @ ''-error-lower'', v) \<in> set (own_values tq df \<alpha> m k')
     \<Longrightarrow> k' = k \<and> v = fl_sub (ds_mean (get_group df m k)) (fst (tconfint_mean tq (get_group df m k) \<alpha>))"
  "(k @ ''-error-upper'', v) \<in> set (own_values tq df \<alpha> m k')
     \<Longrightarrow> k' = k \<and> v = fl_sub (snd (tconfint_mean tq (get_group df m k) \<alpha>)) (ds_mean (get_group df m k))"
  unfolding own_values_set
  using column_names_differ[of k k'] column_names_differ[of k' k]
  by simp_all

lemma own_assignments_set:
  "set (own_assignments tq df \<alpha> metrics m) = (\<Union>k' \<in> set metrics. set (own_values tq df \<alpha> m k'))"
  by (simp add: own_assignments_def)

lemma own_assignments_lookup:
  assumes "k \<in> set metrics"
  shows "assign (own_assignments tq df \<alpha> metrics m) c0 (k @ ''-mean'') = ds_mean (get_group df m k)"
    and "assign (own_assignments tq df \<alpha> metrics m) c0 (k @ ''-error-lower'')
           = fl_sub (ds_mean (get_group df m k)) (fst (tconfint_mean tq (get_group df m k) \<alpha>))"
    and "assign (own_assignments tq df \<alpha> metrics m) c0 (k @ ''-error-upper'')
           = fl_sub (snd (tconfint_mean tq (get_group df m k) \<alpha>)) (ds_mean (get_group df m k))"
proof -
  have "map_of (rev (own_assignments tq df \<alpha> metrics m)) (k @ ''-mean'')
          = Some (ds_mean (get_group df m k))"
  proof (rule map_of_unique_value)
    have "(k @ ''-mean'', ds_mean (get_group df m k)) \<in> set (own_values tq df \<alpha> m k)"
      unfolding own_values_set by simp
    with assms show "(k @ ''-mean'', ds_mean (get_group df m k))
        \<in> set (rev (own_assignments tq df \<alpha> metrics m))"
      unfolding set_rev own_assignments_set by blast
  next
    fix v' assume "(k @ ''-mean'', v') \<in> set (rev (own_assignments tq df \<alpha> metrics m))"
    then obtain k' where "(k @ ''-mean'', v') \<in> set (own_values tq df \<alpha> m k')"
      unfolding set_rev own_assignments_set by blast
    then show "v' = ds_mean (get_group df m k)" by (simp add: own_values_keys(1))
  qed
  then show "assign (own_assignments tq df \<alpha> metrics m) c0 (k @ ''-mean'') = ds_mean (get_group df m k)"
    by (simp add: assign_apply)
  have "map_of (rev (own_assignments tq df \<alpha> metrics m)) (k @ ''-error-lower'')
          = Some (fl_sub (ds_mean (get_group df m k)) (fst (tconfint_mean tq (get_group df m k) \<alpha>)))"
  proof (rule map_of_unique_value)
    have "(k @ ''-error-lower'',
           fl_sub (ds_mean (get_group df m k)) (fst (tconfint_mean tq (get_group df m k) \<alpha>)))
        \<in> set (own_values tq df \<alpha> m k)"
      unfolding own_values_set by simp
    with assms show "(k @ ''-error-lower'',
           fl_sub (ds_mean (get_group df m k)) (fst (tconfint_mean tq (get_group df m k) \<alpha>)))
        \<in> set (rev (own_assignments tq df \<alpha> metrics m))"
      unfolding set_rev own_assignments_set by blast
  next
    fix v' assume "(k @ ''-error-lower'', v') \<in> set (rev (own_assignments tq df \<alpha> metrics m))"
    then obtain k' where "(k @ ''-error-lower'', v') \<in> set (own_values tq df \<alpha> m k')"
      unfolding set_rev own_assignments_set by blast
    then show "v' = fl_sub (ds_mean (get_group df m k)) (fst (tconfint_mean tq (get_group df m k) \<alpha>))"
      by (simp add: own_values_keys(2))
  qed
  then show "assign (own_assignments tq df \<alpha> metrics m) c0 (k @ ''-error-lower'')
           = fl_sub (ds_mean (get_group df m k)) (fst (tconfint_mean tq (get_group df m k) \<alpha>))"
    by (simp add: assign_apply)
  have "map_of (rev (own_assignments tq df \<alpha> metrics m)) (k @ ''-error-upper'')
          = Some (fl_sub (snd (tconfint_mean tq (get_group df m k) \<alpha>)) (ds_mean (get_group df m k)))"
  proof (rule map_of_unique_value)
    have "(k @ ''-error-upper'',
           fl_sub (snd (tconfint_mean tq (get_group df m k) \<alpha>)) (ds_mean (get_group df m k)))
        \<in> set (own_values tq df \<alpha> m k)"
      unfolding own_values_set by simp
    with assms show "(k @ ''-error-upper'',
           fl_sub (snd (tconfint_mean tq (get_group df m k) \<alpha>)) (ds_mean (get_group df m k)))
        \<in> set (rev (own_assignments tq df \<alpha> metrics m))"
      unfolding set_rev own_assignments_set by blast
  next
    fix v' assume "(k @ ''-error-upper'', v') \<in> set (rev (own_assignments tq df \<alpha> metrics m))"
    then obtain k' where "(k @ ''-error-upper'', v') \<in> set (own_values tq df \<alpha> m k')"
      unfolding set_rev own_assignments_set by blast
    then show "v' = fl_sub (snd (tconfint_mean tq (get_group df m k) \<alpha>)) (ds_mean (get_group df m k))"
      by (simp add: own_values_keys(3))
  qed
  then show "assign (own_assignments tq df \<alpha> metrics m) c0 (k @ ''-error-upper'')
           = fl_sub (snd (tconfint_mean tq (get_group df m k) \<alpha>)) (ds_mean (get_group df m k))"
    by (simp add: assign_apply)
qed

lemma std_mean_finite:
  assumes "2 \<le> length xs"
  shows "std_mean (map Some xs) = Some (standard_error xs)"
proof -
  have ne: "xs \<noteq> []" using assms by auto
  have nn: "\<not> sum_sq_dev xs / real (length xs) < 0"
    using sum_sq_dev_nonneg[of xs] by (simp add: not_less)
  have p: "\<not> real (length xs) - 1 < 0" "sqrt (real (length xs) - 1) \<noteq> 0" using assms by auto
  show ?thesis
    using ne nn p
    by (simp add: std_mean_def ds_std_def ds_var_finite nobs_def standard_error_def)
qed

lemma tconfint_mean_finite:
  assumes "2 \<le> length xs"
  shows "tconfint_mean tq (map Some xs) \<alpha>
       = (Some (sample_mean xs - tq (1 - \<alpha> / 2) (real (length xs) - 1) * standard_error xs),
          Some (sample_mean xs + tq (1 - \<alpha> / 2) (real (length xs) - 1) * standard_error xs))"
proof -
  have ne: "xs \<noteq> []" using assms by auto
  show ?thesis
    using ne
    by (simp add: tconfint_mean_def tconfint_generic_def Let_def std_mean_finite[OF assms]
          ds_mean_finite nobs_def)
qed

lemma standard_error_pos:
  assumes "2 \<le> length xs" "sample_variance xs \<noteq> 0"
  shows "0 < standard_error xs"
proof -
  have "sum_sq_dev xs \<noteq> 0" using assms(2) by (auto simp: sample_variance_def)
  with sum_sq_dev_nonneg[of xs] have "0 < sum_sq_dev xs" by simp
  moreover have "0 < real (length xs)" "0 < real (length xs) - 1" using assms(1) by auto
  ultimately show ?thesis by (simp add: standard_error_def)
qed

lemma sqrt_9: "sqrt 9 = 3"
  by (rule real_sqrt_unique) simp_all

lemma example_analysis_returns: "example_analysis = Inr (projr example_analysis)"
  unfolding example_analysis_def by (rule analyze_returns) (simp add: example_trials_def)

lemma example_pairs:
  "combinations2 (unique (map mechanism (df_rows example_trials))) = [(''native'', ''docker'')]"
  by (simp add: example_trials_mechanisms)

lemma example_not_significant:
  "\<not> statistically_significant (pair_welch t_table example_trials (1 / 20) ''native'' ''docker'' ''latency'')"
proof -
  have ci: "tconfint_diff t_table (map Some [0, 6]) (map Some [6, 14]) (1 / 20)
              = (Some (- (7 + 4.303 * 5)), Some (- (7 - 4.303 * 5)))"
    unfolding tconfint_diff_finite example_interval by simp
  show ?thesis
    unfolding pair_welch_def example_trials_groups welch_t_test_with_confidence_interval_def Let_def ci
    by simp
qed

lemma example_rows:
  "agg_rows (returned_df (projr example_analysis))
     = [own_row t_table example_trials (1 / 20) [''latency'']
          \<lparr> agg_model = ''m1'', agg_input = ''a'', agg_mechanism = ''native'', agg_cells = Map.empty \<rparr>,
        own_row t_table example_trials (1 / 20) [''latency'']
          \<lparr> agg_model = ''m1'', agg_input = ''a'', agg_mechanism = ''docker'', agg_cells = Map.empty \<rparr>]"
  unfolding analyze_closed_form(1)[OF example_analysis_returns[unfolded example_analysis_def],
      folded example_analysis_def] mechanisms_in_combinations2 example_trials_mechanisms
  by (simp add: initialize_aggregate_df_def overwritten_def)

lemma example_native_cells:
  "agg_cells (hd (agg_rows (returned_df (projr example_analysis)))) (''latency'' @ ''-mean'') = Some 3"
  "agg_cells (hd (agg_rows (returned_df (projr example_analysis)))) (''latency'' @ ''-error-lower'')
     = Some (12.706 * 3)"
  "agg_cells (hd (agg_rows (returned_df (projr example_analysis)))) (''latency'' @ ''-error-upper'')
     = Some (12.706 * 3)"
proof -
  have k: "''latency'' \<in> set [''latency'']" by simp
  have m: "sample_mean [0, 6] = 3" by (simp add: sample_mean_def)
  have se: "standard_error [0, 6] = 3"
    by (simp add: standard_error_def sum_sq_dev_def m sqrt_9)
  have len: "2 \<le> length [0, 6 :: real]" by simp
  have ci: "tconfint_mean t_table (map Some [0, 6]) (1 / 20) = (Some (3 - 12.706 * 3), Some (3 + 12.706 * 3))"
    unfolding tconfint_mean_finite[OF len] m se by (simp add: t_table_def)
  have dm: "ds_mean (map Some [0, 6]) = Some 3"
    unfolding ds_mean_finite m by simp
  show "agg_cells (hd (agg_rows (returned_df (projr example_analysis)))) (''latency'' @ ''-mean'') = Some 3"
    unfolding example_rows list.sel own_row_def
    by (simp only: agg_row.simps own_assignments_lookup(1)[OF k] example_trials_groups dm)
  show "agg_cells (hd (agg_rows (returned_df (projr example_analysis)))) (''latency'' @ ''-error-lower'')
     = Some (12.706 * 3)"
    unfolding example_rows list.sel own_row_def
    by (simp only: agg_row.simps own_assignments_lookup(2)[OF k] example_trials_groups dm ci)
       simp
  show "agg_cells (hd (agg_rows (returned_df (projr example_analysis)))) (''latency'' @ ''-error-upper'')
     = Some (12.706 * 3)"
    unfolding example_rows list.sel own_row_def
    by (simp only: agg_row.simps own_assignments_lookup(3)[OF k] example_trials_groups dm ci)
       simp
qed

text \<open>
  Claim C8. In a row of the aggregate the analysis returns, for a metric whose three fields
  are populated and a sample of at least two finite observations with non-zero variance,
  both error magnitudes are non-negative and the mean lies strictly between
  \<open>mean - lower\<close> and \<open>mean + upper\<close>. The t quantile the library uses for the
  interval is positive, as a quantile above the median is.
\<close>

theorem aggregate_interval_brackets_mean:
  assumes run: "analyze_data_significant_difference tq df \<alpha> metrics model inp path incl view save = Inr res"
    and r: "r \<in> set (agg_rows (returned_df res))"
    and k: "k \<in> set metrics"
    and populated: "agg_cells r (k @ ''-mean'') = Some mu"
                   "agg_cells r (k @ ''-error-lower'') = Some lo"
                   "agg_cells r (k @ ''-error-upper'') = Some up"
    and sample: "get_group df (agg_mechanism r) k = map Some xs" "2 \<le> length xs"
                "sample_variance xs \<noteq> 0"
    and tq: "0 < tq (1 - \<alpha> / 2) (real (length xs) - 1)"
  shows "0 \<le> lo \<and> 0 \<le> up \<and> mu - lo < mu \<and> mu < mu + up"
proof -
  from r obtain r0 where r0: "r0 \<in> set (agg_rows (initialize_aggregate_df metrics
                                   (unique (map mechanism (df_rows df))) model inp))"
    and rr: "r = overwritten tq df \<alpha> metrics
                   (mechanisms_in (combinations2 (unique (map mechanism (df_rows df))))) r0"
    unfolding analyze_closed_form(1)[OF run] by auto
  from r0 have empty: "agg_cells r0 = Map.empty"
    by (auto simp: initialize_aggregate_df_def)
  have own: "r = own_row tq df \<alpha> metrics r0"
  proof (rule ccontr)
    assume "r \<noteq> own_row tq df \<alpha> metrics r0"
    with rr have "r = r0" by (simp add: overwritten_def split: if_splits)
    with empty populated(1) show False by simp
  qed
  then have mech: "agg_mechanism r = agg_mechanism r0" by simp
  have cell: "agg_cells r c = assign (own_assignments tq df \<alpha> metrics (agg_mechanism r)) (agg_cells r0) c" for c
    unfolding own by (simp add: own_row_def)
  have ne: "xs \<noteq> []" using sample(2) by auto
  have pos: "0 < tq (1 - \<alpha> / 2) (real (length xs) - 1) * standard_error xs"
    using tq standard_error_pos[OF sample(2,3)] by simp
  have "lo = tq (1 - \<alpha> / 2) (real (length xs) - 1) * standard_error xs"
    using populated(2) ne
    unfolding cell own_assignments_lookup(2)[OF k] sample(1) tconfint_mean_finite[OF sample(2)]
    by (simp add: ds_mean_finite)
  moreover have "up = tq (1 - \<alpha> / 2) (real (length xs) - 1) * standard_error xs"
    using populated(3) ne
    unfolding cell own_assignments_lookup(3)[OF k] sample(1) tconfint_mean_finite[OF sample(2)]
    by (simp add: ds_mean_finite)
  ultimately show ?thesis using pos by simp
qed

theorem aggregate_interval_brackets_mean_witness:
  "example_analysis = Inr (projr example_analysis)
   \<and> hd (agg_rows (returned_df (projr example_analysis)))
       \<in> set (agg_rows (returned_df (projr example_analysis)))
   \<and> ''latency'' \<in> set [''latency'']
   \<and> agg_cells (hd (agg_rows (returned_df (projr example_analysis)))) (''latency'' @ ''-mean'') = Some 3
   \<and> agg_cells (hd (agg_rows (returned_df (projr example_analysis)))) (''latency'' @ ''-error-lower'')
       = Some (12.706 * 3)
   \<and> agg_cells (hd (agg_rows (returned_df (projr example_analysis)))) (''latency'' @ ''-error-upper'')
       = Some (12.706 * 3)
   \<and> get_group example_trials (agg_mechanism (hd (agg_rows (returned_df (projr example_analysis)))))
         ''latency'' = map Some [0, 6]
   \<and> 2 \<le> length [0, 6 :: real]
   \<and> sample_variance [0, 6] \<noteq> 0
   \<and> 0 < t_table (1 - (1 / 20) / 2) (real (length [0, 6 :: real]) - 1)
   \<and> (0 :: real) \<le> 12.706 * 3 \<and> (3 :: real) - 12.706 * 3 < 3 \<and> (3 :: real) < 3 + 12.706 * 3"
proof -
  have h1: "analyze_data_significant_difference t_table example_trials (1 / 20) [''latency''] ''m1''
              ''a'' ''cmp'' False True True = Inr (projr example_analysis)"
    using example_analysis_returns by (simp add: example_analysis_def)
  have h2: "hd (agg_rows (returned_df (projr example_analysis)))
       \<in> set (agg_rows (returned_df (projr example_analysis)))"
    unfolding example_rows by simp
  have h3: "''latency'' \<in> set [''latency'']" by simp
  have h4: "get_group example_trials (agg_mechanism (hd (agg_rows (returned_df (projr example_analysis)))))
         ''latency'' = map Some [0, 6]"
    unfolding example_rows list.sel own_row_mechanism by (simp add: example_trials_groups)
  have h5: "2 \<le> length [0, 6 :: real]" by simp
  have h6: "sample_variance [0, 6] \<noteq> 0"
    by (simp add: sample_variance_def sum_sq_dev_def sample_mean_def)
  have h7: "0 < t_table (1 - (1 / 20) / 2) (real (length [0, 6 :: real]) - 1)"
    by (simp add: t_table_def)
  from aggregate_interval_brackets_mean [OF h1 h2 h3 example_native_cells h4 h5 h6 h7]
  show ?thesis
    using example_analysis_returns h2 h3 example_native_cells h4 h5 h6 h7 by blast
qed

text \<open>
  Claim C2, as amended. With \<open>include_insignificant_output\<close> off and saving on, a
  comparison whose significance flag is false still has its row, with the flag false, in
  the comparison table written for its pair: the table holds one row per requested metric.
  Its line "No statistically significant difference" is still printed when viewing is on;
  only the detail lines after it (mean difference, the two averages, the ratio, the empty
  line) are left out. The aggregate values of every mechanism are computed all the same.
\<close>

theorem insignificant_comparison_is_recorded:
  assumes run: "analyze_data_significant_difference tq df \<alpha> metrics model inp path False view True
                  = Inr res"
    and pair: "(dx, dy) \<in> set (combinations2 (unique (map mechanism (df_rows df))))"
    and metric: "k \<in> set metrics"
    and insignificant: "\<not> statistically_significant (pair_welch tq df \<alpha> dx dy k)"
  shows "(path_join path (comparison_csv_filename model inp dx dy), pair_table tq df \<alpha> metrics dx dy)
           \<in> set (written res)
       \<and> map c_metric (body (pair_table tq df \<alpha> metrics dx dy)) = metrics
       \<and> comparison_entry k (pair_welch tq df \<alpha> dx dy k)
           \<in> set (body (pair_table tq df \<alpha> metrics dx dy))
       \<and> \<not> c_significant (comparison_entry k (pair_welch tq df \<alpha> dx dy k))
       \<and> printed res
           = concat (map (\<lambda>p. pair_report tq df \<alpha> False view metrics (fst p) (snd p))
                       (combinations2 (unique (map mechanism (df_rows df)))))
       \<and> report_lines \<alpha> False view dx dy k (pair_welch tq df \<alpha> dx dy k)
           = print_if_true (NoSignificantDifference dx dy k) view
       \<and> agg_rows (returned_df res)
           = map (own_row tq df \<alpha> metrics)
               (agg_rows (initialize_aggregate_df metrics (unique (map mechanism (df_rows df))) model inp))"
proof -
  have w: "(path_join path (comparison_csv_filename model inp dx dy), pair_table tq df \<alpha> metrics dx dy)
           \<in> set (written res)"
    unfolding analyze_closed_form(3)[OF run] using pair by (auto simp: image_iff intro!: bexI[of _ "(dx, dy)"])
  have m: "map c_metric (body (pair_table tq df \<alpha> metrics dx dy)) = metrics"
    by (simp add: pair_table_def comparison_entry_def comp_def)
  have e: "comparison_entry k (pair_welch tq df \<alpha> dx dy k)
           \<in> set (body (pair_table tq df \<alpha> metrics dx dy))"
    using metric by (simp add: pair_table_def)
  have f: "\<not> c_significant (comparison_entry k (pair_welch tq df \<alpha> dx dy k))"
    using insignificant by (simp add: comparison_entry_def)
  have l: "report_lines \<alpha> False view dx dy k (pair_welch tq df \<alpha> dx dy k)
           = print_if_true (NoSignificantDifference dx dy k) view"
    using insignificant by (simp add: report_lines_def)
  have two: "2 \<le> length (unique (map mechanism (df_rows df)))"
  proof (rule ccontr)
    assume "\<not> 2 \<le> length (unique (map mechanism (df_rows df)))"
    then have "mechanisms_in (combinations2 (unique (map mechanism (df_rows df)))) = {}"
      by (simp add: mechanisms_in_combinations2)
    with pair show False by (auto simp: mechanisms_in_def)
  qed
  have a: "agg_rows (returned_df res)
           = map (own_row tq df \<alpha> metrics)
               (agg_rows (initialize_aggregate_df metrics (unique (map mechanism (df_rows df))) model inp))"
    unfolding analyze_closed_form(1)[OF run] mechanisms_in_combinations2
    using two by (auto simp: overwritten_def dest: initialize_rows_mechanisms)
  show ?thesis using w m e f l a analyze_closed_form(2)[OF run] by blast
qed

theorem insignificant_comparison_is_recorded_witness:
  "example_analysis = Inr (projr example_analysis)
   \<and> (''native'', ''docker'') \<in> set (combinations2 (unique (map mechanism (df_rows example_trials))))
   \<and> ''latency'' \<in> set [''latency'']
   \<and> \<not> statistically_significant
         (pair_welch t_table example_trials (1 / 20) ''native'' ''docker'' ''latency'')
   \<and> (path_join ''cmp'' (comparison_csv_filename ''m1'' ''a'' ''native'' ''docker''),
        pair_table t_table example_trials (1 / 20) [''latency''] ''native'' ''docker'')
       \<in> set (written (projr example_analysis))
   \<and> comparison_entry ''latency''
         (pair_welch t_table example_trials (1 / 20) ''native'' ''docker'' ''latency'')
       \<in> set (body (pair_table t_table example_trials (1 / 20) [''latency''] ''native'' ''docker''))
   \<and> \<not> c_significant (comparison_entry ''latency''
         (pair_welch t_table example_trials (1 / 20) ''native'' ''docker'' ''latency''))
   \<and> report_lines (1 / 20) False True ''native'' ''docker'' ''latency''
         (pair_welch t_table example_trials (1 / 20) ''native'' ''docker'' ''latency'')
       = print_if_true (NoSignificantDifference ''native'' ''docker'' ''latency'') True"
proof -
  have h1: "analyze_data_significant_difference t_table example_trials (1 / 20) [''latency''] ''m1''
              ''a'' ''cmp'' False True True = Inr (projr example_analysis)"
    using example_analysis_returns by (simp add: example_analysis_def)
  have h2: "(''native'', ''docker'') \<in> set (combinations2 (unique (map mechanism (df_rows example_trials))))"
    unfolding example_pairs by simp
  have h3: "''latency'' \<in> set [''latency'']" by simp
  from insignificant_comparison_is_recorded [OF h1 h2 h3 example_not_significant]
  show ?thesis
    using example_analysis_returns h2 h3 example_not_significant by blast
qed

text \<open>
  Claim C2 as stated fails: on the example trials, with \<open>include_insignificant_output\<close>
  off, the one comparison is not significant, and yet the table written for the pair holds
  its row and the console shows its line.
\<close>

theorem insignificant_row_is_persisted:
  "\<not> isl example_analysis
   \<and> map fst (written (projr example_analysis)) = [''cmp/m1-a-native-docker-comparison.csv'']
   \<and> map (map c_metric \<circ> body \<circ> snd) (written (projr example_analysis)) = [[''latency'']]
   \<and> map (map c_significant \<circ> body \<circ> snd) (written (projr example_analysis)) = [[False]]
   \<and> printed (projr example_analysis) = [NoSignificantDifference ''native'' ''docker'' ''latency'']"
proof -
  have run: "analyze_data_significant_difference t_table example_trials (1 / 20) [''latency''] ''m1''
              ''a'' ''cmp'' False True True = Inr (projr example_analysis)"
    using example_analysis_returns by (simp add: example_analysis_def)
  have i: "\<not> isl example_analysis"
    using example_analysis_returns by (metis sum.disc(2))
  have w: "written (projr example_analysis)
            = [(path_join ''cmp'' (comparison_csv_filename ''m1'' ''a'' ''native'' ''docker''),
                pair_table t_table example_trials (1 / 20) [''latency''] ''native'' ''docker'')]"
    unfolding analyze_closed_form(3)[OF run] example_pairs by simp
  have p: "printed (projr example_analysis)
            = pair_report t_table example_trials (1 / 20) False True [''latency''] ''native'' ''docker''"
    unfolding analyze_closed_form(2)[OF run] example_pairs by simp
  have n: "path_join ''cmp'' (comparison_csv_filename ''m1'' ''a'' ''native'' ''docker'')
            = ''cmp/m1-a-native-docker-comparison.csv''"
    by (simp add: path_join_def comparison_csv_filename_def)
  show ?thesis
    unfolding w p n using i example_not_significant
    by (simp add: pair_table_def pair_report_def comparison_entry_def report_lines_def print_if_true_def)
qed

end
